theory Spec2Isabelle
  imports Complex_Main "HOL-Library.Log_Nat"
begin

section \<open>JavaScript values as the calculator uses them\<close>

text \<open>
  The calculator of \<^verbatim>\<open>script.js\<close> stores JavaScript numbers, \<^verbatim>\<open>null\<close> and (after a
  load of foreign data) \<^verbatim>\<open>undefined\<close> in the numeric fields of its objects. A finite
  number is modelled by the real it denotes; \<^verbatim>\<open>Infinity\<close>, \<^verbatim>\<open>-Infinity\<close> and \<^verbatim>\<open>NaN\<close>
  are values of their own, and there is a single zero. The operations of this
  section are exact, those of IEEE 754 on the reals: they carry what the functions
  do whatever the rounding. The operations as the program performs them, rounded to
  binary64, follow in a section of their own.
\<close>

datatype number = Fin real | PInf | NInf | NaN

datatype jsval = Undefined | Null | Num number

text \<open>\<^verbatim>\<open>ToNumber\<close>: \<^verbatim>\<open>undefined\<close> becomes \<^verbatim>\<open>NaN\<close>, \<^verbatim>\<open>null\<close> becomes \<^verbatim>\<open>0\<close>.\<close>

fun to_number :: "jsval \<Rightarrow> number" where
  "to_number Undefined = NaN"
| "to_number Null = Fin 0"
| "to_number (Num n) = n"

fun num_sgn :: "number \<Rightarrow> real" where
  "num_sgn (Fin x) = sgn x"
| "num_sgn PInf = 1"
| "num_sgn NInf = - 1"
| "num_sgn NaN = 0"

definition inf_of_sign :: "real \<Rightarrow> number" where
  "inf_of_sign s = (if s = 0 then NaN else if 0 < s then PInf else NInf)"

fun num_add :: "number \<Rightarrow> number \<Rightarrow> number" where
  "num_add (Fin x) (Fin y) = Fin (x + y)"
| "num_add NaN b = NaN"
| "num_add a NaN = NaN"
| "num_add PInf NInf = NaN"
| "num_add NInf PInf = NaN"
| "num_add PInf b = PInf"
| "num_add a PInf = PInf"
| "num_add NInf b = NInf"
| "num_add a NInf = NInf"

fun num_mul :: "number \<Rightarrow> number \<Rightarrow> number" where
  "num_mul (Fin x) (Fin y) = Fin (x * y)"
| "num_mul NaN b = NaN"
| "num_mul a NaN = NaN"
| "num_mul a b = inf_of_sign (num_sgn a * num_sgn b)"

text \<open>
  Division never throws in JavaScript: a finite number over zero is an infinity of
  the dividend's sign (the model's zero is \<^verbatim>\<open>+0\<close>), and \<^verbatim>\<open>0 / 0\<close> is \<^verbatim>\<open>NaN\<close>.
\<close>

fun num_div :: "number \<Rightarrow> number \<Rightarrow> number" where
  "num_div NaN b = NaN"
| "num_div a NaN = NaN"
| "num_div (Fin x) (Fin y) = (if y = 0 then inf_of_sign (sgn x) else Fin (x / y))"
| "num_div (Fin x) b = Fin 0"
| "num_div a (Fin y) = inf_of_sign (num_sgn a * (if y < 0 then - 1 else 1))"
| "num_div a b = NaN"

fun num_less :: "number \<Rightarrow> number \<Rightarrow> bool" where
  "num_less NaN b = False"
| "num_less a NaN = False"
| "num_less (Fin x) (Fin y) = (x < y)"
| "num_less a NInf = False"
| "num_less NInf b = True"
| "num_less PInf b = False"
| "num_less a PInf = True"

definition num_le :: "number \<Rightarrow> number \<Rightarrow> bool" where
  "num_le a b = (a \<noteq> NaN \<and> b \<noteq> NaN \<and> (a = b \<or> num_less a b))"

text \<open>The operators of the source on these values: \<^verbatim>\<open>+\<close>, \<^verbatim>\<open>*\<close>, \<^verbatim>\<open>/\<close>, \<^verbatim>\<open>>\<close>.\<close>

definition js_add :: "jsval \<Rightarrow> jsval \<Rightarrow> jsval" where
  "js_add a b = Num (num_add (to_number a) (to_number b))"

definition js_mul :: "jsval \<Rightarrow> jsval \<Rightarrow> jsval" where
  "js_mul a b = Num (num_mul (to_number a) (to_number b))"

definition js_div :: "jsval \<Rightarrow> jsval \<Rightarrow> jsval" where
  "js_div a b = Num (num_div (to_number a) (to_number b))"

definition js_gt :: "jsval \<Rightarrow> jsval \<Rightarrow> bool" where
  "js_gt a b = num_less (to_number b) (to_number a)"

definition js_ge :: "jsval \<Rightarrow> jsval \<Rightarrow> bool" where
  "js_ge a b = num_le (to_number b) (to_number a)"

text \<open>\<^verbatim>\<open>===\<close> and \<^verbatim>\<open>!==\<close>: equal type and equal value, and \<^verbatim>\<open>NaN\<close> equals nothing.\<close>

definition js_strict_eq :: "jsval \<Rightarrow> jsval \<Rightarrow> bool" where
  "js_strict_eq a b = (a = b \<and> a \<noteq> Num NaN)"

definition js_strict_ne :: "jsval \<Rightarrow> jsval \<Rightarrow> bool" where
  "js_strict_ne a b = (\<not> js_strict_eq a b)"

text \<open>Truthiness, and \<^verbatim>\<open>a || b\<close>: \<^verbatim>\<open>undefined\<close>, \<^verbatim>\<open>null\<close>, \<^verbatim>\<open>0\<close> and \<^verbatim>\<open>NaN\<close> are falsy.\<close>

fun truthy :: "jsval \<Rightarrow> bool" where
  "truthy Undefined = False"
| "truthy Null = False"
| "truthy (Num (Fin x)) = (x \<noteq> 0)"
| "truthy (Num NaN) = False"
| "truthy (Num n) = True"

definition js_or :: "jsval \<Rightarrow> jsval \<Rightarrow> jsval" where
  "js_or a b = (if truthy a then a else b)"

section \<open>The data model\<close>

text \<open>
  A grade object \<^verbatim>\<open>{id, name, score, max}\<close> and a category object
  \<^verbatim>\<open>{id, name, weight, grades}\<close>, as \<^verbatim>\<open>createGrade\<close> and \<^verbatim>\<open>createCategory\<close> build them.
  The fields \<^verbatim>\<open>id\<close>, \<^verbatim>\<open>name\<close> and \<^verbatim>\<open>max\<close> carry a prefix, since HOL has constants of
  those names.
\<close>

record grade =
  g_id :: string
  g_name :: string
  score :: jsval
  g_max :: jsval

record category =
  c_id :: string
  c_name :: string
  weight :: jsval
  grades :: "grade list"

section \<open>Grade calculation functions\<close>

text \<open>
  \<^verbatim>\<open>calculateCategoryAverage(grades)\<close>: the three local constants of the source are
  definitions of their own; \<^verbatim>\<open>reduce\<close> from \<^verbatim>\<open>0\<close> is a left fold.
\<close>

definition validGrades :: "grade list \<Rightarrow> grade list" where
  "validGrades gs =
     filter (\<lambda>g. js_strict_ne (score g) Null \<and> js_strict_ne (g_max g) Null \<and>
                 js_gt (g_max g) (Num (Fin 0))) gs"

definition totalScore :: "grade list \<Rightarrow> jsval" where
  "totalScore vs = foldl (\<lambda>sum g. js_add sum (score g)) (Num (Fin 0)) vs"

definition totalMax :: "grade list \<Rightarrow> jsval" where
  "totalMax vs = foldl (\<lambda>sum g. js_add sum (g_max g)) (Num (Fin 0)) vs"

definition calculateCategoryAverage :: "grade list \<Rightarrow> jsval" where
  "calculateCategoryAverage gs =
     (let vs = validGrades gs in
      if length vs = 0 then Null
      else js_mul (js_div (totalScore vs) (totalMax vs)) (Num (Fin 100)))"

text \<open>
  \<^verbatim>\<open>calculateFinalGrade(categories, weighted)\<close>. The object \<^verbatim>\<open>{...cat, average}\<close> is the
  pair of the category and its average; \<^verbatim>\<open>weighted\<close> is the boolean of the checkbox.
\<close>

definition categoriesWithAvg :: "category list \<Rightarrow> (category \<times> jsval) list" where
  "categoriesWithAvg cats =
     filter (\<lambda>cat. js_strict_ne (snd cat) Null)
       (map (\<lambda>cat. (cat, calculateCategoryAverage (grades cat))) cats)"

definition totalWeight :: "(category \<times> jsval) list \<Rightarrow> jsval" where
  "totalWeight cs =
     foldl (\<lambda>sum cat. js_add sum (js_or (weight (fst cat)) (Num (Fin 0)))) (Num (Fin 0)) cs"

definition weightedSum :: "(category \<times> jsval) list \<Rightarrow> jsval" where
  "weightedSum cs =
     foldl (\<lambda>sum cat. js_add sum (js_mul (snd cat) (js_or (weight (fst cat)) (Num (Fin 0)))))
       (Num (Fin 0)) cs"

definition sumAverages :: "(category \<times> jsval) list \<Rightarrow> jsval" where
  "sumAverages cs = foldl (\<lambda>acc cat. js_add acc (snd cat)) (Num (Fin 0)) cs"

definition calculateFinalGrade :: "category list \<Rightarrow> bool \<Rightarrow> jsval" where
  "calculateFinalGrade cats weighted =
     (let cs = categoriesWithAvg cats in
      if length cs = 0 then Null
      else if weighted then
        (if js_strict_eq (totalWeight cs) (Num (Fin 0)) then Null
         else js_div (weightedSum cs) (totalWeight cs))
      else js_div (sumAverages cs) (Num (Fin (real (length cs)))))"

text \<open>\<^verbatim>\<open>getLetterGrade(percentage)\<close>: the chain of \<^verbatim>\<open>if (percentage >= t) return\<close>.\<close>

definition getLetterGrade :: "jsval \<Rightarrow> string" where
  "getLetterGrade percentage =
     (if js_ge percentage (Num (Fin 93)) then ''A''
      else if js_ge percentage (Num (Fin 90)) then ''A-''
      else if js_ge percentage (Num (Fin 87)) then ''B+''
      else if js_ge percentage (Num (Fin 83)) then ''B''
      else if js_ge percentage (Num (Fin 80)) then ''B-''
      else if js_ge percentage (Num (Fin 77)) then ''C+''
      else if js_ge percentage (Num (Fin 73)) then ''C''
      else if js_ge percentage (Num (Fin 70)) then ''C-''
      else if js_ge percentage (Num (Fin 67)) then ''D+''
      else if js_ge percentage (Num (Fin 63)) then ''D''
      else if js_ge percentage (Num (Fin 60)) then ''D-''
      else ''F'')"

section \<open>Binary64 arithmetic\<close>

text \<open>
  A JavaScript number is an IEEE 754 double, and every \<^verbatim>\<open>+\<close>, \<^verbatim>\<open>*\<close> and \<^verbatim>\<open>/\<close> of the
  program returns the double nearest to the exact result, ties to the even
  significand. \<open>exponent64 x\<close> is the exponent of the binade of \<open>x\<close>, the \<open>e\<close> with
  \<open>2^e \<le> |x| < 2^(e+1)\<close>, and at least \<open>-1022\<close>: below \<open>2^-1022\<close> the doubles are
  subnormal. The doubles of that binade are the integer multiples of \<open>2^(e-52)\<close>, so
  \<open>round64 x\<close> rounds \<open>x / 2^(e-52)\<close> to the nearest integer, ties to even, and scales
  back; a result of magnitude \<open>2^1024\<close> is an infinity. The sign of zero is not
  represented: the program divides by a sum of maxima that is positive, by a weight
  sum that it has compared with 0, and by a length.
\<close>

definition exponent64 :: "real \<Rightarrow> int" where
  "exponent64 x = max (bitlen \<lfloor>\<bar>x\<bar> * 2 ^ 1074\<rfloor> - 1075) (- 1022)"

definition round_half_even :: "real \<Rightarrow> int" where
  "round_half_even q =
     (let f = \<lfloor>q\<rfloor>; d = q - of_int f
      in if d < 1 / 2 then f else if 1 / 2 < d then f + 1 else if even f then f else f + 1)"

definition round64 :: "real \<Rightarrow> number" where
  "round64 x =
     (let u = 2 powi (exponent64 x - 52);
          y = of_int (round_half_even (x / u)) * u
      in if 2 ^ 1024 \<le> y then PInf else if y \<le> - (2 ^ 1024) then NInf else Fin y)"

text \<open>
  The operations of the program: the exact operation, and its result rounded when
  it is finite.
\<close>

definition rounded :: "number \<Rightarrow> number" where
  "rounded n = (case n of Fin r \<Rightarrow> round64 r | _ \<Rightarrow> n)"

definition add64 :: "number \<Rightarrow> number \<Rightarrow> number" where
  "add64 a b = rounded (num_add a b)"

definition mul64 :: "number \<Rightarrow> number \<Rightarrow> number" where
  "mul64 a b = rounded (num_mul a b)"

definition div64 :: "number \<Rightarrow> number \<Rightarrow> number" where
  "div64 a b = rounded (num_div a b)"

definition js_add64 :: "jsval \<Rightarrow> jsval \<Rightarrow> jsval" where
  "js_add64 a b = Num (add64 (to_number a) (to_number b))"

definition js_mul64 :: "jsval \<Rightarrow> jsval \<Rightarrow> jsval" where
  "js_mul64 a b = Num (mul64 (to_number a) (to_number b))"

definition js_div64 :: "jsval \<Rightarrow> jsval \<Rightarrow> jsval" where
  "js_div64 a b = Num (div64 (to_number a) (to_number b))"

text \<open>
  \<^verbatim>\<open>calculateCategoryAverage\<close> and \<^verbatim>\<open>calculateFinalGrade\<close> with these operations: the
  functions of the source as the program evaluates them. The filter and the
  comparisons do no arithmetic and are the ones above.
\<close>

definition totalScore64 :: "grade list \<Rightarrow> jsval" where
  "totalScore64 vs = foldl (\<lambda>sum g. js_add64 sum (score g)) (Num (Fin 0)) vs"

definition totalMax64 :: "grade list \<Rightarrow> jsval" where
  "totalMax64 vs = foldl (\<lambda>sum g. js_add64 sum (g_max g)) (Num (Fin 0)) vs"

definition calculateCategoryAverage64 :: "grade list \<Rightarrow> jsval" where
  "calculateCategoryAverage64 gs =
     (let vs = validGrades gs in
      if length vs = 0 then Null
      else js_mul64 (js_div64 (totalScore64 vs) (totalMax64 vs)) (Num (Fin 100)))"

definition categoriesWithAvg64 :: "category list \<Rightarrow> (category \<times> jsval) list" where
  "categoriesWithAvg64 cats =
     filter (\<lambda>cat. js_strict_ne (snd cat) Null)
       (map (\<lambda>cat. (cat, calculateCategoryAverage64 (grades cat))) cats)"

definition totalWeight64 :: "(category \<times> jsval) list \<Rightarrow> jsval" where
  "totalWeight64 cs =
     foldl (\<lambda>sum cat. js_add64 sum (js_or (weight (fst cat)) (Num (Fin 0)))) (Num (Fin 0)) cs"

definition weightedSum64 :: "(category \<times> jsval) list \<Rightarrow> jsval" where
  "weightedSum64 cs =
     foldl (\<lambda>sum cat. js_add64 sum (js_mul64 (snd cat) (js_or (weight (fst cat)) (Num (Fin 0)))))
       (Num (Fin 0)) cs"

definition sumAverages64 :: "(category \<times> jsval) list \<Rightarrow> jsval" where
  "sumAverages64 cs = foldl (\<lambda>acc cat. js_add64 acc (snd cat)) (Num (Fin 0)) cs"

definition calculateFinalGrade64 :: "category list \<Rightarrow> bool \<Rightarrow> jsval" where
  "calculateFinalGrade64 cats weighted =
     (let cs = categoriesWithAvg64 cats in
      if length cs = 0 then Null
      else if weighted then
        (if js_strict_eq (totalWeight64 cs) (Num (Fin 0)) then Null
         else js_div64 (weightedSum64 cs) (totalWeight64 cs))
      else js_div64 (sumAverages64 cs) (Num (Fin (real (length cs)))))"

section \<open>The state and its operations\<close>

text \<open>
  The global \<^verbatim>\<open>state\<close> object, passed explicitly. The counters are JavaScript numbers
  that start at \<^verbatim>\<open>1\<close> and are only incremented: integer doubles. The calls to the display
  and to \<^verbatim>\<open>debouncedSave\<close> do not touch \<^verbatim>\<open>state\<close> and are left out.
\<close>

record state =
  categories :: "category list"
  isWeighted :: bool
  nextCategoryId :: int
  nextGradeId :: int

definition initial_state :: state where
  "initial_state = \<lparr>categories = [], isWeighted = True, nextCategoryId = 1, nextGradeId = 1\<rparr>"

text \<open>The decimal string of an integer, as \<^verbatim>\<open>'cat-' + n\<close> produces it.\<close>

definition digit_char :: "nat \<Rightarrow> char" where
  "digit_char d = ''0123456789'' ! d"

function string_of_nat :: "nat \<Rightarrow> string" where
  "string_of_nat n =
     (if n < 10 then [digit_char n] else string_of_nat (n div 10) @ [digit_char (n mod 10)])"
  by pat_completeness auto
termination
  by (relation "measure (\<lambda>n. n)") auto

declare string_of_nat.simps [simp del]

text \<open>
  The counters are doubles. \<open>round_int\<close> is the double nearest to an integer, ties to
  the even significand: every integer up to \<open>2 ^ 53\<close> in magnitude is a double, and
  beyond that the doubles are the multiples of the power of two that leaves 53 bits.
  \<^verbatim>\<open>n++\<close> stores the double nearest to \<open>n + 1\<close>; no integer double reaches infinity
  that way.
\<close>

definition round_int :: "int \<Rightarrow> int" where
  "round_int m =
     (if \<bar>m\<bar> \<le> 2 ^ 53 then m
      else
        (let a = \<bar>m\<bar>;
             u = 2 ^ (nat (bitlen a) - 53);
             q = a div u;
             r = a mod u;
             q' = (if 2 * r < u then q else if u < 2 * r then q + 1
                   else if even q then q else q + 1)
         in sgn m * (q' * u)))"

definition js_increment :: "int \<Rightarrow> int" where
  "js_increment n = round_int (n + 1)"

text \<open>
  From \<open>10 ^ 21\<close> on the conversion of a number to a string writes the exponent form:
  the least number \<open>k\<close> of digits \<open>s\<close> such that \<open>s * 10 ^ (n - k)\<close> is read back as the
  same double, the digits nearest to the value if two qualify, then \<^verbatim>\<open>e+\<close> and \<open>n - 1\<close>.
  Seventeen digits always suffice for a double.
\<close>

definition exp_candidates :: "nat \<Rightarrow> nat \<Rightarrow> (nat \<times> nat) list" where
  "exp_candidates a k =
     (let n = length (string_of_nat a);
          s0 = a div 10 ^ (n - k);
          c1 = (s0, n);
          c2 = (if s0 + 1 < 10 ^ k then (s0 + 1, n) else (10 ^ (k - 1), n + 1))
      in filter (\<lambda>c. round_int (int (fst c * 10 ^ (snd c - k))) = int a) [c1, c2])"

definition distance :: "nat \<Rightarrow> nat \<Rightarrow> nat \<times> nat \<Rightarrow> int" where
  "distance a k c = \<bar>int (fst c * 10 ^ (snd c - k)) - int a\<bar>"

definition exp_choice :: "nat \<Rightarrow> nat \<Rightarrow> (nat \<times> nat) option" where
  "exp_choice a k =
     (case exp_candidates a k of
        [] \<Rightarrow> None
      | [c] \<Rightarrow> Some c
      | c1 # c2 # cs \<Rightarrow>
          if distance a k c1 < distance a k c2 then Some c1
          else if distance a k c2 < distance a k c1 then Some c2
          else if even (fst c1) then Some c1 else Some c2)"

definition exponent_form :: "nat \<Rightarrow> string" where
  "exponent_form a =
     (case find (\<lambda>k. exp_choice a k \<noteq> None) [1 ..< 18] of
        None \<Rightarrow> string_of_nat a
      | Some k \<Rightarrow>
          (case exp_choice a k of
             None \<Rightarrow> string_of_nat a
           | Some c \<Rightarrow>
               (let ds = string_of_nat (fst c)
                in (hd ds # (if 1 < k then CHR ''.'' # tl ds else []))
                   @ ''e+'' @ string_of_nat (snd c - 1))))"

definition number_to_string :: "int \<Rightarrow> string" where
  "number_to_string i =
     (let digits = (if \<bar>i\<bar> < 10 ^ 21 then string_of_nat (nat \<bar>i\<bar>)
                    else exponent_form (nat \<bar>i\<bar>))
      in if i < 0 then CHR ''-'' # digits else digits)"

text \<open>
  \<^verbatim>\<open>createCategory(name = 'New Category', weight = 25)\<close>: a default parameter stands in
  for an argument that is \<^verbatim>\<open>undefined\<close> (\<open>None\<close> for the name). The result is the new
  category and the state after the call.
\<close>

definition createCategory :: "string option \<Rightarrow> jsval \<Rightarrow> state \<Rightarrow> category \<times> state" where
  "createCategory name w s =
     (let category = \<lparr>c_id = ''cat-'' @ number_to_string (nextCategoryId s),
                       c_name = (case name of None \<Rightarrow> ''New Category'' | Some n \<Rightarrow> n),
                       weight = (if w = Undefined then Num (Fin 25) else w),
                       grades = []\<rparr>
      in (category, s\<lparr>categories := categories s @ [category],
                       nextCategoryId := js_increment (nextCategoryId s)\<rparr>))"

definition removeCategory :: "string \<Rightarrow> state \<Rightarrow> state" where
  "removeCategory categoryId s =
     s\<lparr>categories := filter (\<lambda>c. c_id c \<noteq> categoryId) (categories s)\<rparr>"

text \<open>
  \<^verbatim>\<open>find\<close> yields the first category of that id, and the source then mutates that
  object in place: the model rewrites the first element that matches.
\<close>

fun update_first :: "('a \<Rightarrow> bool) \<Rightarrow> ('a \<Rightarrow> 'a) \<Rightarrow> 'a list \<Rightarrow> 'a list" where
  "update_first P f [] = []"
| "update_first P f (x # xs) = (if P x then f x # xs else x # update_first P f xs)"

definition createGrade ::
  "string \<Rightarrow> string option \<Rightarrow> jsval \<Rightarrow> jsval \<Rightarrow> state \<Rightarrow> grade option \<times> state" where
  "createGrade categoryId name sc mx s =
     (case find (\<lambda>c. c_id c = categoryId) (categories s) of
        None \<Rightarrow> (None, s)
      | Some category \<Rightarrow>
          (let grade = \<lparr>g_id = ''grade-'' @ number_to_string (nextGradeId s),
                        g_name = (case name of None \<Rightarrow> [] | Some n \<Rightarrow> n),
                        score = (if sc = Undefined then Null else sc),
                        g_max = (if mx = Undefined then Num (Fin 100) else mx)\<rparr>
           in (Some grade,
               s\<lparr>categories :=
                    update_first (\<lambda>c. c_id c = categoryId)
                      (\<lambda>c. c\<lparr>grades := grades c @ [grade]\<rparr>) (categories s),
                  nextGradeId := js_increment (nextGradeId s)\<rparr>)))"

definition removeGrade :: "string \<Rightarrow> string \<Rightarrow> state \<Rightarrow> state" where
  "removeGrade categoryId gradeId s =
     (case find (\<lambda>c. c_id c = categoryId) (categories s) of
        None \<Rightarrow> s
      | Some category \<Rightarrow>
          s\<lparr>categories :=
               update_first (\<lambda>c. c_id c = categoryId)
                 (\<lambda>c. c\<lparr>grades := filter (\<lambda>g. g_id g \<noteq> gradeId) (grades c)\<rparr>)
                 (categories s)\<rparr>)"

text \<open>
  A session is a sequence of these four operations. \<open>minted\<close> lists the ids the
  operations of a run hand out, in order.
\<close>

datatype operation =
    CreateCategory "string option" jsval
  | RemoveCategory string
  | CreateGrade string "string option" jsval jsval
  | RemoveGrade string string

fun step :: "operation \<Rightarrow> state \<Rightarrow> state" where
  "step (CreateCategory name w) s = snd (createCategory name w s)"
| "step (RemoveCategory categoryId) s = removeCategory categoryId s"
| "step (CreateGrade categoryId name sc mx) s = snd (createGrade categoryId name sc mx s)"
| "step (RemoveGrade categoryId gradeId) s = removeGrade categoryId gradeId s"

fun run :: "operation list \<Rightarrow> state \<Rightarrow> state" where
  "run [] s = s"
| "run (x # xs) s = run xs (step x s)"

fun step_minted :: "operation \<Rightarrow> state \<Rightarrow> string list" where
  "step_minted (CreateCategory name w) s = [c_id (fst (createCategory name w s))]"
| "step_minted (CreateGrade categoryId name sc mx) s =
     (case fst (createGrade categoryId name sc mx s) of None \<Rightarrow> [] | Some g \<Rightarrow> [g_id g])"
| "step_minted x s = []"

fun minted :: "operation list \<Rightarrow> state \<Rightarrow> string list" where
  "minted [] s = []"
| "minted (x # xs) s = step_minted x s @ minted xs (step x s)"

section \<open>Local storage\<close>

text \<open>
  A parsed JSON document. An object is the list of its properties in insertion
  order; a property read takes the entry of that key.
\<close>

datatype json =
    JNull
  | JBool bool
  | JNum real
  | JStr string
  | JArr "json list"
  | JObj "(string \<times> json) list"

text \<open>
  The string stored under \<^verbatim>\<open>STORAGE_KEY\<close> is known by what the loader can see of it:
  it is empty (falsy), or \<^verbatim>\<open>JSON.parse\<close> throws on it, or it parses to a document.
  \<^verbatim>\<open>localStorage\<close> itself may be unavailable: then \<^verbatim>\<open>getItem\<close> and \<^verbatim>\<open>setItem\<close> throw.
\<close>

datatype stored_text = Empty_Text | Unparsable_Text | Json_Text json

record storage =
  available :: bool
  item :: "stored_text option"

datatype exn = StorageError | SyntaxError | TypeError

definition getItem :: "storage \<Rightarrow> exn + stored_text option" where
  "getItem st = (if available st then Inr (item st) else Inl StorageError)"

fun json_parse :: "stored_text \<Rightarrow> exn + json" where
  "json_parse (Json_Text j) = Inr j"
| "json_parse t = Inl SyntaxError"

text \<open>
  \<^verbatim>\<open>JSON.stringify\<close> of a numeric field: a property that is \<^verbatim>\<open>undefined\<close> is left out,
  and \<^verbatim>\<open>NaN\<close> and the infinities are written as \<^verbatim>\<open>null\<close>.
\<close>

fun json_field :: "string \<Rightarrow> jsval \<Rightarrow> (string \<times> json) list" where
  "json_field k Undefined = []"
| "json_field k Null = [(k, JNull)]"
| "json_field k (Num (Fin x)) = [(k, JNum x)]"
| "json_field k (Num n) = [(k, JNull)]"

definition json_of_grade :: "grade \<Rightarrow> json" where
  "json_of_grade g =
     JObj ([(''id'', JStr (g_id g)), (''name'', JStr (g_name g))]
           @ json_field ''score'' (score g) @ json_field ''max'' (g_max g))"

definition json_of_category :: "category \<Rightarrow> json" where
  "json_of_category c =
     JObj ([(''id'', JStr (c_id c)), (''name'', JStr (c_name c))]
           @ json_field ''weight'' (weight c)
           @ [(''grades'', JArr (map json_of_grade (grades c)))])"

text \<open>The document that \<^verbatim>\<open>JSON.stringify(dataToSave)\<close> denotes.\<close>

definition dataToSave :: "state \<Rightarrow> json" where
  "dataToSave s =
     JObj [(''categories'', JArr (map json_of_category (categories s))),
           (''isWeighted'', JBool (isWeighted s)),
           (''nextCategoryId'', JNum (of_int (nextCategoryId s))),
           (''nextGradeId'', JNum (of_int (nextGradeId s)))]"

text \<open>\<^verbatim>\<open>saveState()\<close>: a throwing \<^verbatim>\<open>setItem\<close> is caught, and nothing is written.\<close>

definition saveState :: "state \<Rightarrow> storage \<Rightarrow> storage" where
  "saveState s st =
     (if available st then st\<lparr>item := Some (Json_Text (dataToSave s))\<rparr> else st)"

text \<open>
  After a load the fields of \<^verbatim>\<open>state\<close> hold whatever the document held: the loader
  checks no shape. \<open>loaded\<close> is \<^verbatim>\<open>state\<close> seen that way.
\<close>

record loaded =
  l_categories :: json
  l_isWeighted :: json
  l_nextCategoryId :: json
  l_nextGradeId :: json

definition initial_loaded :: loaded where
  "initial_loaded =
     \<lparr>l_categories = JArr [], l_isWeighted = JBool True,
      l_nextCategoryId = JNum 1, l_nextGradeId = JNum 1\<rparr>"

text \<open>
  A property read \<^verbatim>\<open>data.key\<close> for the four keys of the loader: \<open>None\<close> is
  \<^verbatim>\<open>undefined\<close>; reading a property of \<^verbatim>\<open>null\<close> throws. No string, number, boolean
  or array has a property of one of these four names.
\<close>

fun get_prop :: "json \<Rightarrow> string \<Rightarrow> exn + json option" where
  "get_prop JNull k = Inl TypeError"
| "get_prop (JObj fs) k = Inr (map_of fs k)"
| "get_prop j k = Inr None"

fun json_truthy :: "json \<Rightarrow> bool" where
  "json_truthy JNull = False"
| "json_truthy (JBool b) = b"
| "json_truthy (JNum x) = (x \<noteq> 0)"
| "json_truthy (JStr t) = (t \<noteq> [])"
| "json_truthy j = True"

text \<open>\<^verbatim>\<open>v || d\<close> for a property that was read.\<close>

fun or_default :: "json option \<Rightarrow> json \<Rightarrow> json" where
  "or_default None d = d"
| "or_default (Some j) d = (if json_truthy j then j else d)"

text \<open>\<^verbatim>\<open>v !== undefined ? v : d\<close>.\<close>

fun defined_or :: "json option \<Rightarrow> json \<Rightarrow> json" where
  "defined_or None d = d"
| "defined_or (Some j) d = j"

text \<open>
  \<^verbatim>\<open>loadState()\<close>: every statement stands in the \<^verbatim>\<open>try\<close> block, whose handler only logs;
  an exception leaves the assignments made before it and the function returns
  \<^verbatim>\<open>false\<close>. The four assignments follow each other as in the source.
\<close>

definition loadState :: "storage \<Rightarrow> loaded \<Rightarrow> bool \<times> loaded" where
  "loadState st s =
     (case getItem st of
        Inl e \<Rightarrow> (False, s)
      | Inr None \<Rightarrow> (False, s)
      | Inr (Some saved) \<Rightarrow>
          if saved = Empty_Text then (False, s)
          else
            (case json_parse saved of
               Inl e \<Rightarrow> (False, s)
             | Inr data \<Rightarrow>
                 (case get_prop data ''categories'' of
                    Inl e \<Rightarrow> (False, s)
                  | Inr v1 \<Rightarrow>
                      let s1 = s\<lparr>l_categories := or_default v1 (JArr [])\<rparr> in
                      (case get_prop data ''isWeighted'' of
                         Inl e \<Rightarrow> (False, s1)
                       | Inr v2 \<Rightarrow>
                           let s2 = s1\<lparr>l_isWeighted := defined_or v2 (JBool True)\<rparr> in
                           (case get_prop data ''nextCategoryId'' of
                              Inl e \<Rightarrow> (False, s2)
                            | Inr v3 \<Rightarrow>
                                let s3 = s2\<lparr>l_nextCategoryId := or_default v3 (JNum 1)\<rparr> in
                                (case get_prop data ''nextGradeId'' of
                                   Inl e \<Rightarrow> (False, s3)
                                 | Inr v4 \<Rightarrow>
                                     (True, s3\<lparr>l_nextGradeId := or_default v4 (JNum 1)\<rparr>)))))))"

text \<open>
  Reading a loaded state as the objects the calculator works with: the property
  reads \<^verbatim>\<open>g.id\<close>, \<^verbatim>\<open>g.name\<close>, \<^verbatim>\<open>g.score\<close>, \<^verbatim>\<open>g.max\<close>, \<^verbatim>\<open>c.weight\<close>, \<^verbatim>\<open>c.grades\<close> and the
  four fields of \<^verbatim>\<open>state\<close>. The result is \<open>None\<close> where the document has another
  shape.
\<close>

fun field_of_json :: "json option \<Rightarrow> jsval option" where
  "field_of_json None = Some Undefined"
| "field_of_json (Some JNull) = Some Null"
| "field_of_json (Some (JNum x)) = Some (Num (Fin x))"
| "field_of_json (Some j) = None"

fun string_of_json :: "json option \<Rightarrow> string option" where
  "string_of_json (Some (JStr t)) = Some t"
| "string_of_json j = None"

fun int_of_json :: "json \<Rightarrow> int option" where
  "int_of_json (JNum x) = (if of_int \<lfloor>x\<rfloor> = x then Some \<lfloor>x\<rfloor> else None)"
| "int_of_json j = None"

fun grade_of_json :: "json \<Rightarrow> grade option" where
  "grade_of_json (JObj fs) =
     (case (string_of_json (map_of fs ''id''), string_of_json (map_of fs ''name''),
            field_of_json (map_of fs ''score''), field_of_json (map_of fs ''max'')) of
        (Some i, Some n, Some sc, Some mx) \<Rightarrow>
          Some \<lparr>g_id = i, g_name = n, score = sc, g_max = mx\<rparr>
      | _ \<Rightarrow> None)"
| "grade_of_json j = None"

fun grades_of_json :: "json option \<Rightarrow> grade list option" where
  "grades_of_json (Some (JArr js)) = those (map grade_of_json js)"
| "grades_of_json j = None"

fun category_of_json :: "json \<Rightarrow> category option" where
  "category_of_json (JObj fs) =
     (case (string_of_json (map_of fs ''id''), string_of_json (map_of fs ''name''),
            field_of_json (map_of fs ''weight''), grades_of_json (map_of fs ''grades'')) of
        (Some i, Some n, Some w, Some gs) \<Rightarrow>
          Some \<lparr>c_id = i, c_name = n, weight = w, grades = gs\<rparr>
      | _ \<Rightarrow> None)"
| "category_of_json j = None"

definition state_of_loaded :: "loaded \<Rightarrow> state option" where
  "state_of_loaded l =
     (case (l_categories l, l_isWeighted l) of
        (JArr js, JBool b) \<Rightarrow>
          (case (those (map category_of_json js),
                 int_of_json (l_nextCategoryId l), int_of_json (l_nextGradeId l)) of
             (Some cats, Some n, Some m) \<Rightarrow>
               Some \<lparr>categories = cats, isWeighted = b, nextCategoryId = n, nextGradeId = m\<rparr>
           | _ \<Rightarrow> None)
      | _ \<Rightarrow> None)"

text \<open>
  What a load can read: the document under the key, when the storage is available,
  the text is not empty and parses, and the document is not \<^verbatim>\<open>null\<close>. \<open>prop_of\<close> is the
  property read on such a document, and \<open>defaults_applied\<close> the four fields with the
  defaults of the loader.
\<close>

fun prop_of :: "json \<Rightarrow> string \<Rightarrow> json option" where
  "prop_of (JObj fs) k = map_of fs k"
| "prop_of j k = None"

definition stored_document :: "storage \<Rightarrow> json option" where
  "stored_document st =
     (if available st then
        (case item st of
           Some (Json_Text j) \<Rightarrow> (if j = JNull then None else Some j)
         | _ \<Rightarrow> None)
      else None)"

definition defaults_applied :: "json \<Rightarrow> loaded" where
  "defaults_applied d =
     \<lparr>l_categories = or_default (prop_of d ''categories'') (JArr []),
      l_isWeighted = defined_or (prop_of d ''isWeighted'') (JBool True),
      l_nextCategoryId = or_default (prop_of d ''nextCategoryId'') (JNum 1),
      l_nextGradeId = or_default (prop_of d ''nextGradeId'') (JNum 1)\<rparr>"

section \<open>The specification's reading of the data\<close>

text \<open>
  The data model of the specification types the fields: a score and a maximum are
  a number or absent (\<^verbatim>\<open>null\<close>), a weight is a number. The definitions of this section
  follow the words of the specification; the theorems compare them with the code.
\<close>

fun is_num_or_null :: "jsval \<Rightarrow> bool" where
  "is_num_or_null Null = True"
| "is_num_or_null (Num (Fin x)) = True"
| "is_num_or_null v = False"

fun is_finite :: "jsval \<Rightarrow> bool" where
  "is_finite (Num (Fin x)) = True"
| "is_finite v = False"

definition typed_grade :: "grade \<Rightarrow> bool" where
  "typed_grade g = (is_num_or_null (score g) \<and> is_num_or_null (g_max g))"

definition typed_category :: "category \<Rightarrow> bool" where
  "typed_category c = (is_finite (weight c) \<and> list_all typed_grade (grades c))"

fun the_real :: "jsval \<Rightarrow> real" where
  "the_real (Num (Fin x)) = x"
| "the_real v = 0"

fun present :: "jsval \<Rightarrow> bool" where
  "present (Num n) = True"
| "present v = False"

text \<open>An item is valid when score and max are present and max is positive.\<close>

definition spec_valid :: "grade \<Rightarrow> bool" where
  "spec_valid g = (present (score g) \<and> present (g_max g) \<and> 0 < the_real (g_max g))"

text \<open>Points earned over points possible, times 100; no data without a valid item.\<close>

definition spec_category_average :: "grade list \<Rightarrow> real option" where
  "spec_category_average gs =
     (let vs = filter spec_valid gs in
      if vs = [] then None
      else Some (100 * sum_list (map (\<lambda>g. the_real (score g)) vs)
                     / sum_list (map (\<lambda>g. the_real (g_max g)) vs)))"

text \<open>The absent result is \<^verbatim>\<open>null\<close>.\<close>

fun js_of_result :: "real option \<Rightarrow> jsval" where
  "js_of_result None = Null"
| "js_of_result (Some r) = Num (Fin r)"

text \<open>The categories with data, each as its average and its weight.\<close>

definition spec_with_data :: "category list \<Rightarrow> (real \<times> real) list" where
  "spec_with_data cats =
     List.map_filter
       (\<lambda>c. map_option (\<lambda>a. (a, the_real (weight c))) (spec_category_average (grades c))) cats"

definition spec_final_weighted :: "category list \<Rightarrow> real option" where
  "spec_final_weighted cats =
     (let ds = spec_with_data cats in
      if ds = [] then None
      else if sum_list (map snd ds) = 0 then None
      else Some (sum_list (map (\<lambda>d. fst d * snd d) ds) / sum_list (map snd ds)))"

definition spec_final_unweighted :: "category list \<Rightarrow> real option" where
  "spec_final_unweighted cats =
     (let ds = spec_with_data cats in
      if ds = [] then None
      else Some (sum_list (map fst ds) / real (length ds)))"

text \<open>
  The same formulas in the arithmetic of the program: the sums are taken from 0, left
  to right, the quotient of the sums is formed first and then multiplied by 100, and
  every operation is rounded. An average is then any number, also an infinity or
  \<^verbatim>\<open>NaN\<close>.
\<close>

definition sum64 :: "number list \<Rightarrow> number" where
  "sum64 xs = foldl add64 (Fin 0) xs"

definition spec_category_average64 :: "grade list \<Rightarrow> number option" where
  "spec_category_average64 gs =
     (let vs = filter spec_valid gs in
      if vs = [] then None
      else Some (mul64 (div64 (sum64 (map (\<lambda>g. Fin (the_real (score g))) vs))
                              (sum64 (map (\<lambda>g. Fin (the_real (g_max g))) vs)))
                       (Fin 100)))"

fun js_of_number :: "number option \<Rightarrow> jsval" where
  "js_of_number None = Null"
| "js_of_number (Some n) = Num n"

definition spec_with_data64 :: "category list \<Rightarrow> (number \<times> real) list" where
  "spec_with_data64 cats =
     List.map_filter
       (\<lambda>c. map_option (\<lambda>a. (a, the_real (weight c))) (spec_category_average64 (grades c))) cats"

definition spec_final_weighted64 :: "category list \<Rightarrow> number option" where
  "spec_final_weighted64 cats =
     (let ds = spec_with_data64 cats in
      if ds = [] then None
      else if sum64 (map (\<lambda>d. Fin (snd d)) ds) = Fin 0 then None
      else Some (div64 (sum64 (map (\<lambda>d. mul64 (fst d) (Fin (snd d))) ds))
                       (sum64 (map (\<lambda>d. Fin (snd d)) ds))))"

definition spec_final_unweighted64 :: "category list \<Rightarrow> number option" where
  "spec_final_unweighted64 cats =
     (let ds = spec_with_data64 cats in
      if ds = [] then None
      else Some (div64 (sum64 (map fst ds)) (Fin (real (length ds)))))"

text \<open>A state whose categories are typed as the data model says.\<close>

definition typed_state :: "state \<Rightarrow> bool" where
  "typed_state s = list_all typed_category (categories s)"

text \<open>
  The letter thresholds, closed below and looked up from the highest down.
\<close>

definition letter_thresholds :: "(real \<times> string) list" where
  "letter_thresholds =
     [(93, ''A''), (90, ''A-''), (87, ''B+''), (83, ''B''), (80, ''B-''), (77, ''C+''),
      (73, ''C''), (70, ''C-''), (67, ''D+''), (63, ''D''), (60, ''D-'')]"

definition mapToLetterGrade :: "real \<Rightarrow> string" where
  "mapToLetterGrade p =
     (case find (\<lambda>t. fst t \<le> p) letter_thresholds of
        Some t \<Rightarrow> snd t
      | None \<Rightarrow> ''F'')"



text \<open>
  The counters are JavaScript numbers. On the integers from \<open>-2^53\<close> to \<open>2^53\<close> every
  value is a double and \<^verbatim>\<open>++\<close> adds one, except at \<open>2^53\<close> itself, where it stalls.
\<close>

definition safe_counter :: "int \<Rightarrow> bool" where
  "safe_counter n = (- (2 ^ 53) \<le> n \<and> n \<le> 2 ^ 53)"

definition safe_state :: "state \<Rightarrow> bool" where
  "safe_state s = (safe_counter (nextCategoryId s) \<and> safe_counter (nextGradeId s))"

text \<open>
  An id that a counter from the given value on, and below \<open>2^53\<close>, renders:
  \<^verbatim>\<open>cat-k\<close> with \<open>k\<close> from \<open>c\<close> on, or \<^verbatim>\<open>grade-k\<close> with \<open>k\<close> from \<open>g\<close> on. And an id
  that a counter before the given value renders.
\<close>

definition minted_from :: "int \<Rightarrow> int \<Rightarrow> string \<Rightarrow> bool" where
  "minted_from c g x =
     ((\<exists>k. c \<le> k \<and> k < 2 ^ 53 \<and> x = ''cat-'' @ number_to_string k) \<or>
      (\<exists>k. g \<le> k \<and> k < 2 ^ 53 \<and> x = ''grade-'' @ number_to_string k))"

definition minted_before :: "int \<Rightarrow> int \<Rightarrow> string \<Rightarrow> bool" where
  "minted_before c g x =
     ((\<exists>k. - (2 ^ 53) \<le> k \<and> k < c \<and> x = ''cat-'' @ number_to_string k) \<or>
      (\<exists>k. - (2 ^ 53) \<le> k \<and> k < g \<and> x = ''grade-'' @ number_to_string k))"

text \<open>
  The ids of a state, those of the categories and then those of the grades, and
  the same as a set on the list of categories. Every id of the state lies below its
  counter: this is what the initial state has and what every operation keeps.
\<close>

definition ids :: "state \<Rightarrow> string list" where
  "ids s = map c_id (categories s) @ concat (map (\<lambda>c. map g_id (grades c)) (categories s))"

definition ids_of :: "category list \<Rightarrow> string set" where
  "ids_of cats = c_id ` set cats \<union> (\<Union>c \<in> set cats. g_id ` set (grades c))"

definition ids_below :: "state \<Rightarrow> bool" where
  "ids_below s = (\<forall>x \<in> set (ids s). minted_before (nextCategoryId s) (nextGradeId s) x)"

text \<open>The bound of a run: the counters are safe at the start and below \<open>2^53\<close> at the end.\<close>

definition below_limit :: "operation list \<Rightarrow> state \<Rightarrow> bool" where
  "below_limit xs s =
     (safe_state s \<and> nextCategoryId (run xs s) < 2 ^ 53 \<and> nextGradeId (run xs s) < 2 ^ 53)"

section \<open>Example data\<close>

definition quiz :: grade where
  "quiz = \<lparr>g_id = ''grade-1'', g_name = ''quiz'', score = Num (Fin 9), g_max = Num (Fin 10)\<rparr>"

definition exam :: grade where
  "exam = \<lparr>g_id = ''grade-2'', g_name = ''exam'', score = Num (Fin 40), g_max = Num (Fin 50)\<rparr>"

definition scored :: "real \<Rightarrow> grade" where
  "scored x = \<lparr>g_id = ''grade-1'', g_name = [], score = Num (Fin x), g_max = Num (Fin 100)\<rparr>"

definition cat_of :: "string \<Rightarrow> real \<Rightarrow> real \<Rightarrow> category" where
  "cat_of i avg w = \<lparr>c_id = i, c_name = [], weight = Num (Fin w), grades = [scored avg]\<rparr>"

definition empty_cat :: category where
  "empty_cat = \<lparr>c_id = ''cat-9'', c_name = [], weight = Num (Fin 40), grades = []\<rparr>"

text \<open>
  An item of given score and maximum, a category with a weight and its items, and
  the largest power of two among the doubles.
\<close>

definition points :: "real \<Rightarrow> real \<Rightarrow> grade" where
  "points s m = \<lparr>g_id = ''grade-1'', g_name = [], score = Num (Fin s), g_max = Num (Fin m)\<rparr>"

definition cat_with :: "real \<Rightarrow> grade list \<Rightarrow> category" where
  "cat_with w gs = \<lparr>c_id = ''cat-1'', c_name = [], weight = Num (Fin w), grades = gs\<rparr>"

definition huge :: real where
  "huge = 2 ^ 1023"

text \<open>An item without a \<^verbatim>\<open>score\<close> key, and one without a \<^verbatim>\<open>max\<close> key.\<close>

definition no_score :: grade where
  "no_score = \<lparr>g_id = ''grade-3'', g_name = ''lab'', score = Undefined, g_max = Num (Fin 10)\<rparr>"

definition no_max :: grade where
  "no_max = \<lparr>g_id = ''grade-4'', g_name = ''lab'', score = Num (Fin 5), g_max = Undefined\<rparr>"

definition sample_state :: state where
  "sample_state =
     \<lparr>categories = [\<lparr>c_id = ''cat-1'', c_name = ''Assignments'', weight = Num (Fin 100),
                      grades = [quiz, exam]\<rparr>],
      isWeighted = True, nextCategoryId = 2, nextGradeId = 3\<rparr>"

text \<open>A session that creates, deletes and creates again.\<close>

definition session :: "operation list" where
  "session =
     [CreateCategory None Undefined, RemoveCategory ''cat-1'', CreateCategory (Some ''Exams'') (Num (Fin 40)),
      CreateGrade ''cat-2'' None Undefined Undefined, RemoveGrade ''cat-2'' ''grade-1'',
      CreateGrade ''cat-1'' None Undefined Undefined]"

text \<open>Stored data with a string for the categories, and an empty storage.\<close>

definition corrupt_storage :: storage where
  "corrupt_storage =
     \<lparr>available = True,
      item = Some (Json_Text (JObj [(''categories'', JStr ''corrupt''), (''isWeighted'', JBool False)]))\<rparr>"

definition empty_storage :: storage where
  "empty_storage = \<lparr>available = True, item = None\<rparr>"

text \<open>
  Stored data with the category counter at \<open>2^53\<close>, and the state it loads as; stored
  data of one category \<^verbatim>\<open>cat-1\<close> without the counters, and the state it loads as.
\<close>

definition stalled_storage :: storage where
  "stalled_storage =
     \<lparr>available = True,
      item = Some (Json_Text (JObj [(''nextCategoryId'', JNum 9007199254740992)]))\<rparr>"

definition stalled_state :: state where
  "stalled_state =
     \<lparr>categories = [], isWeighted = True, nextCategoryId = 9007199254740992, nextGradeId = 1\<rparr>"

definition stale_storage :: storage where
  "stale_storage =
     \<lparr>available = True,
      item = Some (Json_Text (JObj [(''categories'',
        JArr [JObj [(''id'', JStr ''cat-1''), (''name'', JStr ''Assignments''),
                    (''weight'', JNum 100), (''grades'', JArr [])]])]))\<rparr>"

definition stale_state :: state where
  "stale_state =
     \<lparr>categories = [\<lparr>c_id = ''cat-1'', c_name = ''Assignments'', weight = Num (Fin 100), grades = []\<rparr>],
      isWeighted = True, nextCategoryId = 1, nextGradeId = 1\<rparr>"

text \<open>
  The state after \<^verbatim>\<open>createCategory()\<close> and \<^verbatim>\<open>createGrade('cat-1', '', NaN, 100)\<close>: a score
  field whose text does not parse is \<^verbatim>\<open>NaN\<close>.
\<close>

definition nan_state :: state where
  "nan_state =
     \<lparr>categories =
        [\<lparr>c_id = ''cat-1'', c_name = ''New Category'', weight = Num (Fin 25),
          grades = [\<lparr>g_id = ''grade-1'', g_name = [], score = Num NaN, g_max = Num (Fin 100)\<rparr>]\<rparr>],
      isWeighted = True, nextCategoryId = 2, nextGradeId = 2\<rparr>"

text \<open>
  Stored data with the category counter at \<open>-1\<close>, the state it loads as, and that
  state after one \<^verbatim>\<open>createCategory('Assignments', 100)\<close>: the counter is 0.
\<close>

definition negative_storage :: storage where
  "negative_storage =
     \<lparr>available = True, item = Some (Json_Text (JObj [(''nextCategoryId'', JNum (- 1))]))\<rparr>"

definition negative_state :: state where
  "negative_state = \<lparr>categories = [], isWeighted = True, nextCategoryId = - 1, nextGradeId = 1\<rparr>"

definition zero_counter_state :: state where
  "zero_counter_state =
     \<lparr>categories = [\<lparr>c_id = ''cat--1'', c_name = ''Assignments'', weight = Num (Fin 100), grades = []\<rparr>],
      isWeighted = True, nextCategoryId = 0, nextGradeId = 1\<rparr>"

section \<open>Lemmas on binary64 arithmetic\<close>

lemma powi_neg_numeral: "(x::real) powi (- numeral k) = 1 / x ^ numeral k"
  by (simp add: power_int_minus inverse_eq_divide)

lemma powi_add_real: "(2::real) powi (a + b) = 2 powi a * 2 powi b"
  by (simp add: power_int_add)

lemma bitlen_eqI: "2 ^ (nat w - 1) \<le> a \<Longrightarrow> a < 2 ^ nat w \<Longrightarrow> 0 < w \<Longrightarrow> bitlen a = w"
  by (intro antisym) (simp_all add: bitlen_le_iff_power bitlen_ge_iff_power)

lemma exponent64_eqI:
  assumes "2 powi e \<le> \<bar>x\<bar>" "\<bar>x\<bar> < 2 powi (e + 1)" "- 1022 \<le> e"
  shows "exponent64 x = e"
proof -
  define k where "k = nat (e + 1074)"
  define c :: real where "c = 2 ^ 1074"
  have c: "c = 2 powi 1074" unfolding c_def by simp
  have cpos: "0 < c" unfolding c_def by simp
  have k: "int k = e + 1074" using assms(3) by (simp add: k_def)
  have p1: "(2::real) powi e * c = 2 ^ k"
  proof -
    have "(2::real) powi e * c = 2 powi (e + 1074)" unfolding c by (simp only: powi_add_real)
    also have "\<dots> = 2 powi (int k)" by (simp only: k)
    also have "\<dots> = 2 ^ k" by (rule power_int_of_nat)
    finally show ?thesis .
  qed
  have p2: "(2::real) powi (e + 1) * c = 2 ^ (k + 1)"
  proof -
    have "(2::real) powi (e + 1) * c = 2 powi (e + 1 + 1074)" unfolding c by (simp only: powi_add_real)
    also have "e + 1 + 1074 = int (k + 1)" using k by simp
    also have "(2::real) powi (int (k + 1)) = 2 ^ (k + 1)" by (rule power_int_of_nat)
    finally show ?thesis .
  qed
  have lo: "(2::real) ^ k \<le> \<bar>x\<bar> * c"
    using mult_right_mono[OF assms(1), of c] cpos unfolding p1 by simp
  have hi: "\<bar>x\<bar> * c < 2 ^ (k + 1)"
    using mult_strict_right_mono[OF assms(2) cpos] unfolding p2 .
  have lo': "(2::int) ^ k \<le> \<lfloor>\<bar>x\<bar> * c\<rfloor>"
    using lo by (simp add: le_floor_iff)
  have hi': "\<lfloor>\<bar>x\<bar> * c\<rfloor> < 2 ^ (k + 1)"
    using hi by (simp add: floor_less_iff)
  have b: "bitlen \<lfloor>\<bar>x\<bar> * c\<rfloor> = int k + 1"
    using lo' hi' by (intro bitlen_eqI) (simp_all add: nat_add_distrib)
  have "exponent64 x = max (bitlen \<lfloor>\<bar>x\<bar> * c\<rfloor> - 1075) (- 1022)"
    unfolding exponent64_def c_def ..
  also have "\<dots> = max e (- 1022)" unfolding b using k by simp
  also have "\<dots> = e" using assms(3) by simp
  finally show ?thesis .
qed

lemma round64_binade:
  assumes "2 powi e \<le> \<bar>x\<bar>" "\<bar>x\<bar> < 2 powi (e + 1)" "- 1022 \<le> e"
  shows "round64 x =
     (let u = 2 powi (e - 52);
          y = of_int (round_half_even (x / u)) * u
      in if 2 ^ 1024 \<le> y then PInf else if y \<le> - (2 ^ 1024) then NInf else Fin y)"
  unfolding round64_def exponent64_eqI[OF assms] ..

lemma round_half_even_int: "round_half_even (of_int m) = m"
  by (simp add: round_half_even_def)

lemma exponent64_zero: "exponent64 0 = - 1022"
  by (simp add: exponent64_def)

lemma round64_zero: "round64 0 = Fin 0"
  unfolding round64_def exponent64_zero by (simp add: round_half_even_def)

lemma round64_exact:
  assumes "2 powi e \<le> \<bar>x\<bar>" "\<bar>x\<bar> < 2 powi (e + 1)" "- 1022 \<le> e"
    and "x / 2 powi (e - 52) = of_int m" and "\<bar>x\<bar> < 2 ^ 1024"
  shows "round64 x = Fin x"
proof -
  have u: "(2::real) powi (e - 52) \<noteq> 0" by simp
  have y: "of_int (round_half_even (x / 2 powi (e - 52))) * 2 powi (e - 52) = x"
    unfolding assms(4) round_half_even_int using assms(4)[symmetric] u by simp
  have "\<not> 2 ^ 1024 \<le> x" "\<not> x \<le> - (2 ^ 1024)" using assms(5) by linarith+
  then show ?thesis
    unfolding round64_binade[OF assms(1,2,3)] Let_def y by simp
qed

lemma round64_int:
  assumes "\<bar>n\<bar> \<le> 2 ^ 53"
  shows "round64 (of_int n) = Fin (of_int n)"
proof (cases "n = 0")
  case True
  then show ?thesis by (simp add: round64_zero)
next
  case False
  define a where "a = \<bar>n\<bar>"
  define k where "k = nat (bitlen a - 1)"
  have a: "0 < a" "a \<le> 2 ^ 53" using False assms by (simp_all add: a_def)
  have bb: "2 ^ nat (bitlen a - 1) \<le> a" "a < 2 ^ nat (bitlen a)"
    using bitlen_bounds[OF a(1)] by simp_all
  have b1: "0 < bitlen a" using bb(2) a(1) by (cases "0 < bitlen a") simp_all
  have kb: "bitlen a = int k + 1" using b1 by (simp add: k_def)
  have lo: "2 ^ k \<le> a" using bb(1) by (simp add: k_def)
  have hi: "a < 2 ^ (k + 1)" using bb(2) kb by (simp add: nat_add_distrib)
  have k53: "k \<le> 53"
  proof (rule ccontr)
    assume "\<not> k \<le> 53"
    then have "54 \<le> k" by simp
    then have "(2::int) ^ 54 \<le> 2 ^ k" by (rule power_increasing) simp
    then show False using lo a(2) by simp
  qed
  have ax: "\<bar>of_int n :: real\<bar> = of_int a" by (simp add: a_def)
  have e1: "(2::real) powi (int k) \<le> \<bar>of_int n\<bar>"
    unfolding ax power_int_of_nat using lo by (metis of_int_le_iff of_int_numeral of_int_power)
  have e2: "\<bar>of_int n :: real\<bar> < 2 powi (int k + 1)"
  proof -
    have "int k + 1 = int (k + 1)" by simp
    then have "(2::real) powi (int k + 1) = 2 powi (int (k + 1))" by (rule arg_cong)
    also have "\<dots> = 2 ^ (k + 1)" by (rule power_int_of_nat)
    finally have p: "(2::real) powi (int k + 1) = 2 ^ (k + 1)" .
    have "(of_int a :: real) < of_int (2 ^ (k + 1))" using hi by (simp only: of_int_less_iff)
    then show ?thesis unfolding ax p by simp
  qed
  have e3: "- 1022 \<le> int k" by simp
  have big: "\<bar>of_int n :: real\<bar> < 2 ^ 1024"
  proof -
    have "(of_int a :: real) \<le> of_int (2 ^ 53)" using a(2) by (simp only: of_int_le_iff)
    then show ?thesis unfolding ax by simp
  qed
  have "\<exists>m. (of_int n :: real) / 2 powi (int k - 52) = of_int m"
  proof (cases "k \<le> 52")
    case True
    then have "int k - 52 = - int (52 - k)" by simp
    then have "(2::real) powi (int k - 52) = inverse (2 ^ (52 - k))"
      by (simp only: power_int_minus power_int_of_nat)
    then have "(of_int n :: real) / 2 powi (int k - 52) = of_int (n * 2 ^ (52 - k))"
      by (simp add: field_simps)
    then show ?thesis by blast
  next
    case False
    then have k: "k = 53" using k53 by simp
    then have "a = 2 ^ 53" using lo a(2) by simp
    then have "n = 2 ^ 53 \<or> n = - (2 ^ 53)" unfolding a_def by linarith
    then have "(of_int n :: real) / 2 powi (int k - 52) = of_int (n div 2)"
      unfolding k by auto
    then show ?thesis by blast
  qed
  then obtain m where m: "(of_int n :: real) / 2 powi (int k - 52) = of_int m" by blast
  show ?thesis by (rule round64_exact[OF e1 e2 e3 m big])
qed

lemma round64_numeral: "numeral k \<le> (2::int) ^ 53 \<Longrightarrow> round64 (numeral k) = Fin (numeral k)"
  using round64_int[of "numeral k"] by simp

lemma round64_one: "round64 1 = Fin 1"
  using round64_int[of 1] by simp

section \<open>Lemmas on the aggregation\<close>

text \<open>
  With exact operations the functions compute the formulas of the specification:
  what the program returns differs from them by the rounding of its operations alone.
\<close>

lemma is_num_or_null_cases:
  "is_num_or_null v \<longleftrightarrow> v = Null \<or> (\<exists>x. v = Num (Fin x))"
  by (cases v rule: is_num_or_null.cases) auto

lemma typed_valid_iff:
  assumes "typed_grade g"
  shows "(js_strict_ne (score g) Null \<and> js_strict_ne (g_max g) Null \<and>
          js_gt (g_max g) (Num (Fin 0))) = spec_valid g"
  using assms
  by (auto simp: typed_grade_def spec_valid_def js_strict_ne_def js_strict_eq_def js_gt_def
      is_num_or_null_cases)

lemma validGrades_typed:
  "list_all typed_grade gs \<Longrightarrow> validGrades gs = filter spec_valid gs"
  unfolding validGrades_def
  by (rule filter_cong) (auto simp: list_all_iff typed_valid_iff)

lemma foldl_add_fin:
  assumes "\<forall>x \<in> set xs. \<exists>r. f x = Num (Fin r)"
  shows "foldl (\<lambda>sum x. js_add sum (f x)) (Num (Fin a)) xs
         = Num (Fin (a + sum_list (map (\<lambda>x. the_real (f x)) xs)))"
  using assms
  by (induction xs arbitrary: a) (auto simp: js_add_def add.assoc)

lemma spec_valid_fin:
  "typed_grade g \<Longrightarrow> spec_valid g \<Longrightarrow> (\<exists>x. score g = Num (Fin x)) \<and> (\<exists>m. g_max g = Num (Fin m) \<and> 0 < m)"
  by (auto simp: typed_grade_def spec_valid_def is_num_or_null_cases)

lemma sum_pos_max:
  assumes "\<forall>g \<in> set vs. 0 < the_real (g_max g)" "vs \<noteq> []"
  shows "0 < sum_list (map (\<lambda>g. the_real (g_max g)) vs)"
proof -
  obtain g gs where vs: "vs = g # gs" using assms(2) by (cases vs) auto
  have "0 \<le> sum_list (map (\<lambda>g. the_real (g_max g)) gs)"
    by (rule sum_list_nonneg) (use assms(1) vs in \<open>auto intro: less_imp_le\<close>)
  moreover have "0 < the_real (g_max g)" using assms(1) vs by simp
  ultimately show ?thesis by (simp add: vs add_pos_nonneg)
qed

lemma average_typed:
  assumes "list_all typed_grade gs"
  shows "validGrades gs = filter spec_valid gs \<and>
         calculateCategoryAverage gs = js_of_result (spec_category_average gs)"
proof -
  let ?vs = "filter spec_valid gs"
  have v: "validGrades gs = ?vs" using assms by (rule validGrades_typed)
  have fin: "\<forall>g \<in> set ?vs. (\<exists>x. score g = Num (Fin x)) \<and> (\<exists>m. g_max g = Num (Fin m) \<and> 0 < m)"
    using assms spec_valid_fin by (auto simp: list_all_iff)
  have ts: "totalScore ?vs = Num (Fin (sum_list (map (\<lambda>g. the_real (score g)) ?vs)))"
    unfolding totalScore_def using foldl_add_fin[of ?vs score 0] fin by auto
  have tm: "totalMax ?vs = Num (Fin (sum_list (map (\<lambda>g. the_real (g_max g)) ?vs)))"
    unfolding totalMax_def using foldl_add_fin[of ?vs g_max 0] fin by auto
  show ?thesis
  proof (cases "?vs = []")
    case True
    then show ?thesis
      by (simp add: v calculateCategoryAverage_def spec_category_average_def)
  next
    case False
    have "0 < sum_list (map (\<lambda>g. the_real (g_max g)) ?vs)"
      by (rule sum_pos_max) (use fin False in auto)
    then show ?thesis using False
      by (simp add: v calculateCategoryAverage_def spec_category_average_def Let_def ts tm
          js_mul_def js_div_def mult.commute)
  qed
qed


lemma is_finite_cases: "is_finite v \<longleftrightarrow> (\<exists>x. v = Num (Fin x))"
  by (cases v rule: is_finite.cases) auto

lemma js_or_fin: "js_or (Num (Fin w)) (Num (Fin 0)) = Num (Fin w)"
  by (simp add: js_or_def)


lemma categoriesWithAvg_Cons:
  "categoriesWithAvg (c # cats) =
     (if calculateCategoryAverage (grades c) = Null then categoriesWithAvg cats
      else (c, calculateCategoryAverage (grades c)) # categoriesWithAvg cats)"
  by (auto simp: categoriesWithAvg_def js_strict_ne_def js_strict_eq_def)

lemma categoriesWithAvg_typed:
  assumes "list_all typed_category cats"
  shows "map (\<lambda>p. (the_real (snd p), the_real (weight (fst p)))) (categoriesWithAvg cats)
           = spec_with_data cats
       \<and> (\<forall>p \<in> set (categoriesWithAvg cats). is_finite (snd p) \<and> is_finite (weight (fst p)))"
  using assms
proof (induction cats)
  case Nil
  then show ?case by (simp add: categoriesWithAvg_def spec_with_data_def map_filter_simps)
next
  case (Cons c cats)
  then have tg: "list_all typed_grade (grades c)" and fw: "is_finite (weight c)"
    and ih: "map (\<lambda>p. (the_real (snd p), the_real (weight (fst p)))) (categoriesWithAvg cats)
           = spec_with_data cats"
       "\<forall>p \<in> set (categoriesWithAvg cats). is_finite (snd p) \<and> is_finite (weight (fst p))"
    by (auto simp: typed_category_def)
  have avg: "calculateCategoryAverage (grades c) = js_of_result (spec_category_average (grades c))"
    using average_typed[OF tg] by simp
  show ?case
  proof (cases "spec_category_average (grades c)")
    case None
    then show ?thesis using ih avg
      by (simp add: categoriesWithAvg_Cons spec_with_data_def map_filter_simps)
  next
    case (Some a)
    then show ?thesis using ih avg fw
      by (simp add: categoriesWithAvg_Cons spec_with_data_def map_filter_simps)
  qed
qed

lemma totalWeight_typed:
  assumes "\<forall>p \<in> set cs. is_finite (snd p) \<and> is_finite (weight (fst p))"
  shows "totalWeight cs = Num (Fin (sum_list (map (\<lambda>p. the_real (weight (fst p))) cs)))"
proof -
  have "\<forall>p \<in> set cs. \<exists>r. js_or (weight (fst p)) (Num (Fin 0)) = Num (Fin r)"
    using assms by (auto simp: is_finite_cases js_or_fin)
  from foldl_add_fin[OF this, of 0]
  have "totalWeight cs = Num (Fin (sum_list (map (\<lambda>p. the_real (js_or (weight (fst p)) (Num (Fin 0)))) cs)))"
    by (simp add: totalWeight_def)
  moreover have "map (\<lambda>p. the_real (js_or (weight (fst p)) (Num (Fin 0)))) cs
     = map (\<lambda>p. the_real (weight (fst p))) cs"
    using assms by (auto simp: is_finite_cases js_or_fin)
  ultimately show ?thesis by simp
qed

lemma weightedSum_typed:
  assumes "\<forall>p \<in> set cs. is_finite (snd p) \<and> is_finite (weight (fst p))"
  shows "weightedSum cs
     = Num (Fin (sum_list (map (\<lambda>p. the_real (snd p) * the_real (weight (fst p))) cs)))"
proof -
  let ?f = "\<lambda>p. js_mul (snd p) (js_or (weight (fst p)) (Num (Fin 0)))"
  have "\<forall>p \<in> set cs. \<exists>r. ?f p = Num (Fin r)"
    using assms by (auto simp: is_finite_cases js_or_fin js_mul_def)
  from foldl_add_fin[OF this, of 0]
  have "weightedSum cs = Num (Fin (sum_list (map (\<lambda>p. the_real (?f p)) cs)))"
    by (simp add: weightedSum_def)
  moreover have "map (\<lambda>p. the_real (?f p)) cs
     = map (\<lambda>p. the_real (snd p) * the_real (weight (fst p))) cs"
    using assms by (auto simp: is_finite_cases js_or_fin js_mul_def)
  ultimately show ?thesis by simp
qed

lemma sumAverages_typed:
  assumes "\<forall>p \<in> set cs. is_finite (snd p) \<and> is_finite (weight (fst p))"
  shows "sumAverages cs = Num (Fin (sum_list (map (\<lambda>p. the_real (snd p)) cs)))"
proof -
  have "\<forall>p \<in> set cs. \<exists>r. snd p = Num (Fin r)"
    using assms by (auto simp: is_finite_cases)
  from foldl_add_fin[OF this, of 0] show ?thesis by (simp add: sumAverages_def)
qed

lemma final_weighted_typed:
  assumes "list_all typed_category cats"
  shows "calculateFinalGrade cats True = js_of_result (spec_final_weighted cats)"
proof -
  let ?cs = "categoriesWithAvg cats"
  let ?g = "\<lambda>p. (the_real (snd p), the_real (weight (fst p)))"
  from categoriesWithAvg_typed[OF assms]
  have m: "map ?g ?cs = spec_with_data cats"
    and t: "\<forall>p \<in> set ?cs. is_finite (snd p) \<and> is_finite (weight (fst p))" by auto
  have e: "?cs = [] \<longleftrightarrow> spec_with_data cats = []" using m by (metis map_is_Nil_conv)
  have w: "map snd (spec_with_data cats) = map (\<lambda>p. the_real (weight (fst p))) ?cs"
    unfolding m[symmetric] by simp
  have ws: "map (\<lambda>d. fst d * snd d) (spec_with_data cats)
     = map (\<lambda>p. the_real (snd p) * the_real (weight (fst p))) ?cs"
    unfolding m[symmetric] by simp
  show ?thesis
    by (simp add: calculateFinalGrade_def spec_final_weighted_def Let_def e w ws
      totalWeight_typed[OF t] weightedSum_typed[OF t] js_strict_eq_def js_div_def)
qed

lemma final_unweighted_typed:
  assumes "list_all typed_category cats"
  shows "calculateFinalGrade cats False = js_of_result (spec_final_unweighted cats)"
proof -
  let ?cs = "categoriesWithAvg cats"
  let ?g = "\<lambda>p. (the_real (snd p), the_real (weight (fst p)))"
  from categoriesWithAvg_typed[OF assms]
  have m: "map ?g ?cs = spec_with_data cats"
    and t: "\<forall>p \<in> set ?cs. is_finite (snd p) \<and> is_finite (weight (fst p))" by auto
  have e: "?cs = [] \<longleftrightarrow> spec_with_data cats = []" using m by (metis map_is_Nil_conv)
  have l: "length (spec_with_data cats) = length ?cs" unfolding m[symmetric] by simp
  have a: "map fst (spec_with_data cats) = map (\<lambda>p. the_real (snd p)) ?cs"
    unfolding m[symmetric] by simp
  show ?thesis
    by (simp add: calculateFinalGrade_def spec_final_unweighted_def Let_def e l a
      sumAverages_typed[OF t] js_div_def)
qed

lemma js_ge_fin: "js_ge (Num (Fin p)) (Num (Fin t)) \<longleftrightarrow> t \<le> p"
  by (auto simp: js_ge_def num_le_def)

lemma letter_nan: "getLetterGrade (Num NaN) = ''F'' \<and> getLetterGrade Undefined = ''F''"
  by (simp add: getLetterGrade_def js_ge_def num_le_def)

lemma strict_ne_null: "js_strict_ne v Null \<longleftrightarrow> v \<noteq> Null"
  by (auto simp: js_strict_ne_def js_strict_eq_def)







section \<open>Lemmas on the rounded aggregation\<close>

lemma foldl_add64:
  assumes "\<forall>x \<in> set xs. f x = Num (h x)"
  shows "foldl (\<lambda>sum x. js_add64 sum (f x)) (Num a) xs = Num (foldl add64 a (map h xs))"
  using assms by (induction xs arbitrary: a) (simp_all add: js_add64_def)

lemma valid_fields:
  assumes "list_all typed_grade gs"
  shows "\<forall>g \<in> set (filter spec_valid gs).
           score g = Num (Fin (the_real (score g))) \<and> g_max g = Num (Fin (the_real (g_max g)))"
  using assms spec_valid_fin by (fastforce simp: list_all_iff)

lemma average64_typed:
  assumes "list_all typed_grade gs"
  shows "calculateCategoryAverage64 gs = js_of_number (spec_category_average64 gs)"
proof -
  let ?vs = "filter spec_valid gs"
  have v: "validGrades gs = ?vs" using assms by (rule validGrades_typed)
  have f: "\<forall>g \<in> set ?vs. score g = Num (Fin (the_real (score g)))"
    "\<forall>g \<in> set ?vs. g_max g = Num (Fin (the_real (g_max g)))"
    using valid_fields[OF assms] by blast+
  have ts: "totalScore64 ?vs = Num (sum64 (map (\<lambda>g. Fin (the_real (score g))) ?vs))"
    unfolding totalScore64_def sum64_def by (rule foldl_add64[OF f(1)])
  have tm: "totalMax64 ?vs = Num (sum64 (map (\<lambda>g. Fin (the_real (g_max g))) ?vs))"
    unfolding totalMax64_def sum64_def by (rule foldl_add64[OF f(2)])
  show ?thesis
    by (simp add: calculateCategoryAverage64_def spec_category_average64_def Let_def v ts tm
        js_mul64_def js_div64_def)
qed

lemma categoriesWithAvg64_Nil: "categoriesWithAvg64 [] = []"
  by (simp add: categoriesWithAvg64_def)

lemma categoriesWithAvg64_Cons:
  "categoriesWithAvg64 (c # cats) =
     (if calculateCategoryAverage64 (grades c) = Null then categoriesWithAvg64 cats
      else (c, calculateCategoryAverage64 (grades c)) # categoriesWithAvg64 cats)"
  by (auto simp: categoriesWithAvg64_def js_strict_ne_def js_strict_eq_def)

lemma categoriesWithAvg64_typed:
  assumes "list_all typed_category cats"
  shows "map (\<lambda>p. (to_number (snd p), the_real (weight (fst p)))) (categoriesWithAvg64 cats)
           = spec_with_data64 cats
       \<and> (\<forall>p \<in> set (categoriesWithAvg64 cats).
            snd p = Num (to_number (snd p)) \<and> weight (fst p) = Num (Fin (the_real (weight (fst p)))))"
  using assms
proof (induction cats)
  case Nil
  then show ?case by (simp add: categoriesWithAvg64_def spec_with_data64_def map_filter_simps)
next
  case (Cons c cats)
  then have tg: "list_all typed_grade (grades c)" and fw: "is_finite (weight c)"
    and ih: "map (\<lambda>p. (to_number (snd p), the_real (weight (fst p)))) (categoriesWithAvg64 cats)
           = spec_with_data64 cats"
       "\<forall>p \<in> set (categoriesWithAvg64 cats).
            snd p = Num (to_number (snd p)) \<and> weight (fst p) = Num (Fin (the_real (weight (fst p))))"
    by (auto simp: typed_category_def)
  have avg: "calculateCategoryAverage64 (grades c) = js_of_number (spec_category_average64 (grades c))"
    using average64_typed[OF tg] by simp
  have w: "weight c = Num (Fin (the_real (weight c)))"
    using fw by (auto simp: is_finite_cases)
  show ?case
  proof (cases "spec_category_average64 (grades c)")
    case None
    then show ?thesis using ih avg
      by (simp add: categoriesWithAvg64_Cons spec_with_data64_def map_filter_simps)
  next
    case (Some a)
    then show ?thesis using ih avg w
      by (simp add: categoriesWithAvg64_Cons spec_with_data64_def map_filter_simps)
  qed
qed

lemma js_or_weight: "js_or (Num (Fin w)) (Num (Fin 0)) = Num (Fin w)"
  by (simp add: js_or_def)

lemma final_weighted64_typed:
  assumes "list_all typed_category cats"
  shows "calculateFinalGrade64 cats True = js_of_number (spec_final_weighted64 cats)"
proof -
  let ?cs = "categoriesWithAvg64 cats"
  let ?g = "\<lambda>p. (to_number (snd p), the_real (weight (fst p)))"
  from categoriesWithAvg64_typed[OF assms]
  have m: "map ?g ?cs = spec_with_data64 cats"
    and t: "\<forall>p \<in> set ?cs. snd p = Num (to_number (snd p)) \<and>
               weight (fst p) = Num (Fin (the_real (weight (fst p))))" by auto
  have e: "?cs = [] \<longleftrightarrow> spec_with_data64 cats = []" using m by (metis map_is_Nil_conv)
  have w: "map (\<lambda>d. Fin (snd d)) (spec_with_data64 cats)
     = map (\<lambda>p. Fin (the_real (weight (fst p)))) ?cs"
    unfolding m[symmetric] by simp
  have ws: "map (\<lambda>d. mul64 (fst d) (Fin (snd d))) (spec_with_data64 cats)
     = map (\<lambda>p. mul64 (to_number (snd p)) (Fin (the_real (weight (fst p))))) ?cs"
    unfolding m[symmetric] by simp
  have f1: "\<forall>p \<in> set ?cs. js_or (weight (fst p)) (Num (Fin 0)) = Num (Fin (the_real (weight (fst p))))"
    using t js_or_weight by metis
  have f2: "\<forall>p \<in> set ?cs. js_mul64 (snd p) (js_or (weight (fst p)) (Num (Fin 0)))
      = Num (mul64 (to_number (snd p)) (Fin (the_real (weight (fst p)))))"
    using f1 by (simp add: js_mul64_def)
  have tw: "totalWeight64 ?cs = Num (sum64 (map (\<lambda>p. Fin (the_real (weight (fst p)))) ?cs))"
    unfolding totalWeight64_def sum64_def by (rule foldl_add64[OF f1])
  have sw: "weightedSum64 ?cs
     = Num (sum64 (map (\<lambda>p. mul64 (to_number (snd p)) (Fin (the_real (weight (fst p))))) ?cs))"
    unfolding weightedSum64_def sum64_def by (rule foldl_add64[OF f2])
  show ?thesis
    by (simp add: calculateFinalGrade64_def spec_final_weighted64_def Let_def e w ws tw sw
        js_strict_eq_def js_div64_def)
qed

lemma final_unweighted64_typed:
  assumes "list_all typed_category cats"
  shows "calculateFinalGrade64 cats False = js_of_number (spec_final_unweighted64 cats)"
proof -
  let ?cs = "categoriesWithAvg64 cats"
  let ?g = "\<lambda>p. (to_number (snd p), the_real (weight (fst p)))"
  from categoriesWithAvg64_typed[OF assms]
  have m: "map ?g ?cs = spec_with_data64 cats"
    and t: "\<forall>p \<in> set ?cs. snd p = Num (to_number (snd p))" by auto
  have e: "?cs = [] \<longleftrightarrow> spec_with_data64 cats = []" using m by (metis map_is_Nil_conv)
  have l: "length (spec_with_data64 cats) = length ?cs" unfolding m[symmetric] by simp
  have a: "map fst (spec_with_data64 cats) = map (\<lambda>p. to_number (snd p)) ?cs"
    unfolding m[symmetric] by simp
  have sa: "sumAverages64 ?cs = Num (sum64 (map (\<lambda>p. to_number (snd p)) ?cs))"
    unfolding sumAverages64_def sum64_def by (rule foldl_add64[OF t])
  show ?thesis
    by (simp add: calculateFinalGrade64_def spec_final_unweighted64_def Let_def e l a sa js_div64_def)
qed

lemma unweighted64_by_averages:
  "calculateFinalGrade64 cats False =
     (let vs = map snd (categoriesWithAvg64 cats) in
      if length vs = 0 then Null
      else js_div64 (foldl js_add64 (Num (Fin 0)) vs) (Num (Fin (real (length vs)))))"
  by (simp add: calculateFinalGrade64_def sumAverages64_def foldl_map Let_def)

lemma averages64_ignore_weight:
  "map snd (categoriesWithAvg64 (map (\<lambda>c. c\<lparr>weight := w c\<rparr>) cats))
     = map snd (categoriesWithAvg64 cats)"
  by (induction cats) (simp_all add: categoriesWithAvg64_Nil categoriesWithAvg64_Cons)

lemma weights64_ignored:
  "calculateFinalGrade64 (map (\<lambda>c. c\<lparr>weight := w c\<rparr>) cats) False
     = calculateFinalGrade64 cats False"
  by (simp only: unweighted64_by_averages averages64_ignore_weight)

text \<open>The rounded operations that the examples need, each from the binade of its exact result.\<close>

lemma exact_operations:
  "add64 (Fin 0) (Fin 9) = Fin 9"
  "add64 (Fin 0) (Fin 10) = Fin 10"
  "add64 (Fin 9) (Fin 40) = Fin 49"
  "add64 (Fin 10) (Fin 50) = Fin 60"
  "add64 (Fin 0) (Fin 29) = Fin 29"
  "add64 (Fin 0) (Fin 100) = Fin 100"
  "mul64 (Fin 100) (Fin 29) = Fin 2900"
  "add64 (Fin 0) (Fin 90) = Fin 90"
  "add64 (Fin 0) (Fin 80) = Fin 80"
  "add64 (Fin 0) (Fin 70) = Fin 70"
  "add64 (Fin 0) (Fin 50) = Fin 50"
  "add64 (Fin 50) (Fin 50) = Fin 100"
  "mul64 (Fin 90) (Fin 50) = Fin 4500"
  "add64 (Fin 0) (Fin 4500) = Fin 4500"
  "mul64 (Fin 80) (Fin 50) = Fin 4000"
  "add64 (Fin 4500) (Fin 4000) = Fin 8500"
  "add64 (Fin 0) (Fin 16) = Fin 16"
  "add64 (Fin 0) (Fin 25) = Fin 25"
  "add64 (Fin 0) (Fin 68) = Fin 68"
  "add64 (Fin 0) (Fin 75) = Fin 75"
  "add64 (Fin 0) (Fin 40) = Fin 40"
  "add64 (Fin 40) (Fin 60) = Fin 100"
  "mul64 (Fin 64) (Fin 40) = Fin 2560"
  "add64 (Fin 0) (Fin 2560) = Fin 2560"
  "add64 (Fin 0) (Fin 1) = Fin 1"
  "mul64 (Fin 1) (Fin 100) = Fin 100"
  "add64 (Fin 10000000000000000) (Fin (- 10000000000000000)) = Fin 0"
  "add64 (Fin 90) (Fin 70) = Fin 160"
  "add64 (Fin 0) (Fin 17) = Fin 17"
  "add64 (Fin 0) (Fin 60) = Fin 60"
  "add64 (Fin 0) (Fin 55) = Fin 55"
  by (simp_all add: add64_def mul64_def rounded_def round64_numeral round64_one round64_zero)

lemma div64_1: "div64 (Fin 49) (Fin 60) = Fin (3677939695685905 / 4503599627370496)"
  using round64_binade[of "- 1" "49 / 60"]
  by (simp add: div64_def rounded_def round_half_even_def Let_def powi_neg_numeral)

lemma mul64_2: "mul64 (Fin (3677939695685905 / 4503599627370496)) (Fin 100) = Fin (5746780774509227 / 70368744177664)"
  using round64_binade[of "6" "(3677939695685905 / 4503599627370496) * 100"]
  by (simp add: mul64_def rounded_def round_half_even_def Let_def powi_neg_numeral)

lemma div64_3: "div64 (Fin 29) (Fin 100) = Fin (5224175567749775 / 18014398509481984)"
  using round64_binade[of "- 2" "29 / 100"]
  by (simp add: div64_def rounded_def round_half_even_def Let_def powi_neg_numeral)

lemma mul64_4: "mul64 (Fin (5224175567749775 / 18014398509481984)) (Fin 100) = Fin (8162774324609023 / 281474976710656)"
  using round64_binade[of "4" "(5224175567749775 / 18014398509481984) * 100"]
  by (simp add: mul64_def rounded_def round_half_even_def Let_def powi_neg_numeral)

lemma div64_5: "div64 (Fin 2900) (Fin 100) = Fin 29"
  using round64_binade[of "4" "2900 / 100"]
  by (simp add: div64_def rounded_def round_half_even_def Let_def powi_neg_numeral)

lemma div64_6: "div64 (Fin 90) (Fin 100) = Fin (8106479329266893 / 9007199254740992)"
  using round64_binade[of "- 1" "90 / 100"]
  by (simp add: div64_def rounded_def round_half_even_def Let_def powi_neg_numeral)

lemma mul64_7: "mul64 (Fin (8106479329266893 / 9007199254740992)) (Fin 100) = Fin 90"
  using round64_binade[of "6" "(8106479329266893 / 9007199254740992) * 100"]
  by (simp add: mul64_def rounded_def round_half_even_def Let_def powi_neg_numeral)

lemma div64_8: "div64 (Fin 80) (Fin 100) = Fin (3602879701896397 / 4503599627370496)"
  using round64_binade[of "- 1" "80 / 100"]
  by (simp add: div64_def rounded_def round_half_even_def Let_def powi_neg_numeral)

lemma mul64_9: "mul64 (Fin (3602879701896397 / 4503599627370496)) (Fin 100) = Fin 80"
  using round64_binade[of "6" "(3602879701896397 / 4503599627370496) * 100"]
  by (simp add: mul64_def rounded_def round_half_even_def Let_def powi_neg_numeral)

lemma div64_10: "div64 (Fin 70) (Fin 100) = Fin (3152519739159347 / 4503599627370496)"
  using round64_binade[of "- 1" "70 / 100"]
  by (simp add: div64_def rounded_def round_half_even_def Let_def powi_neg_numeral)

lemma mul64_11: "mul64 (Fin (3152519739159347 / 4503599627370496)) (Fin 100) = Fin 70"
  using round64_binade[of "6" "(3152519739159347 / 4503599627370496) * 100"]
  by (simp add: mul64_def rounded_def round_half_even_def Let_def powi_neg_numeral)

lemma div64_12: "div64 (Fin 8500) (Fin 100) = Fin 85"
  using round64_binade[of "6" "8500 / 100"]
  by (simp add: div64_def rounded_def round_half_even_def Let_def powi_neg_numeral)

lemma div64_13: "div64 (Fin 16) (Fin 25) = Fin (5764607523034235 / 9007199254740992)"
  using round64_binade[of "- 1" "16 / 25"]
  by (simp add: div64_def rounded_def round_half_even_def Let_def powi_neg_numeral)

lemma mul64_14: "mul64 (Fin (5764607523034235 / 9007199254740992)) (Fin 100) = Fin 64"
  using round64_binade[of "6" "(5764607523034235 / 9007199254740992) * 100"]
  by (simp add: mul64_def rounded_def round_half_even_def Let_def powi_neg_numeral)

lemma div64_15: "div64 (Fin 68) (Fin 75) = Fin (8166527324298499 / 9007199254740992)"
  using round64_binade[of "- 1" "68 / 75"]
  by (simp add: div64_def rounded_def round_half_even_def Let_def powi_neg_numeral)

lemma mul64_16: "mul64 (Fin (8166527324298499 / 9007199254740992)) (Fin 100) = Fin (3190049736054101 / 35184372088832)"
  using round64_binade[of "6" "(8166527324298499 / 9007199254740992) * 100"]
  by (simp add: mul64_def rounded_def round_half_even_def Let_def powi_neg_numeral)

lemma mul64_17: "mul64 (Fin (3190049736054101 / 35184372088832)) (Fin 60) = Fin (5981343255101439 / 1099511627776)"
  using round64_binade[of "12" "(3190049736054101 / 35184372088832) * 60"]
  by (simp add: mul64_def rounded_def round_half_even_def Let_def powi_neg_numeral)

lemma add64_18: "add64 (Fin 2560) (Fin (5981343255101439 / 1099511627776)) = Fin (8796093022207999 / 1099511627776)"
  using round64_binade[of "12" "2560 + (5981343255101439 / 1099511627776)"]
  by (simp add: add64_def rounded_def round_half_even_def Let_def powi_neg_numeral)

lemma div64_19: "div64 (Fin (8796093022207999 / 1099511627776)) (Fin 100) = Fin (5629499534213119 / 70368744177664)"
  using round64_binade[of "6" "(8796093022207999 / 1099511627776) / 100"]
  by (simp add: div64_def rounded_def round_half_even_def Let_def powi_neg_numeral)

lemma div64_20: "div64 (Fin 1) (Fin 1) = Fin 1"
  using round64_binade[of "0" "1 / 1"]
  by (simp add: div64_def rounded_def round_half_even_def Let_def powi_neg_numeral)

lemma add64_21: "add64 (Fin 0) (Fin 10000000000000000) = Fin 10000000000000000"
  using round64_binade[of "53" "0 + 10000000000000000"]
  by (simp add: add64_def rounded_def round_half_even_def Let_def powi_neg_numeral)

lemma add64_22: "add64 (Fin 10000000000000000) (Fin 1) = Fin 10000000000000000"
  using round64_binade[of "53" "10000000000000000 + 1"]
  by (simp add: add64_def rounded_def round_half_even_def Let_def powi_neg_numeral)

lemma div64_23: "div64 (Fin 160) (Fin 2) = Fin 80"
  using round64_binade[of "6" "160 / 2"]
  by (simp add: div64_def rounded_def round_half_even_def Let_def powi_neg_numeral)

lemma div64_24: "div64 (Fin 17) (Fin 60) = Fin (2552039788843281 / 9007199254740992)"
  using round64_binade[of "- 2" "17 / 60"]
  by (simp add: div64_def rounded_def round_half_even_def Let_def powi_neg_numeral)

lemma mul64_25: "mul64 (Fin (2552039788843281 / 9007199254740992)) (Fin 100) = Fin (7975124340135253 / 281474976710656)"
  using round64_binade[of "4" "(2552039788843281 / 9007199254740992) * 100"]
  by (simp add: mul64_def rounded_def round_half_even_def Let_def powi_neg_numeral)

lemma div64_26: "div64 (Fin 55) (Fin 60) = Fin (8256599316845909 / 9007199254740992)"
  using round64_binade[of "- 1" "55 / 60"]
  by (simp add: div64_def rounded_def round_half_even_def Let_def powi_neg_numeral)

lemma mul64_27: "mul64 (Fin (8256599316845909 / 9007199254740992)) (Fin 100) = Fin (3225234108142933 / 35184372088832)"
  using round64_binade[of "6" "(8256599316845909 / 9007199254740992) * 100"]
  by (simp add: mul64_def rounded_def round_half_even_def Let_def powi_neg_numeral)

lemma add64_28: "add64 (Fin 0) (Fin (7975124340135253 / 281474976710656)) = Fin (7975124340135253 / 281474976710656)"
  using round64_binade[of "4" "0 + (7975124340135253 / 281474976710656)"]
  by (simp add: add64_def rounded_def round_half_even_def Let_def powi_neg_numeral)

lemma add64_29: "add64 (Fin (7975124340135253 / 281474976710656)) (Fin (3225234108142933 / 35184372088832)) = Fin (8444249301319679 / 70368744177664)"
  using round64_binade[of "6" "(7975124340135253 / 281474976710656) + (3225234108142933 / 35184372088832)"]
  by (simp add: add64_def rounded_def round_half_even_def Let_def powi_neg_numeral)

lemma div64_30: "div64 (Fin (8444249301319679 / 70368744177664)) (Fin 2) = Fin (8444249301319679 / 140737488355328)"
  using round64_binade[of "5" "(8444249301319679 / 70368744177664) / 2"]
  by (simp add: div64_def rounded_def round_half_even_def Let_def powi_neg_numeral)

lemma huge_pos: "0 < huge"
  by (simp add: huge_def)

lemma add64_huge: "add64 (Fin 0) (Fin huge) = Fin huge" "add64 (Fin huge) (Fin huge) = PInf"
  using round64_binade[of 1023 "2 ^ 1023"] round64_binade[of 1024 "2 ^ 1024"]
  by (simp_all add: add64_def rounded_def huge_def round_half_even_def Let_def)

lemma points_simps: "score (points s m) = Num (Fin s)" "g_max (points s m) = Num (Fin m)"
  by (simp_all add: points_def)

lemma spec_valid_points: "spec_valid (points s m) \<longleftrightarrow> 0 < m"
  by (simp add: spec_valid_def points_def)

lemma typed_points: "typed_grade (points s m)"
  by (simp add: typed_grade_def points_def)

lemma typed_cat_with: "typed_category (cat_with w [points s m])"
  by (simp add: typed_category_def cat_with_def typed_points)

lemma cat_with_simps: "weight (cat_with w gs) = Num (Fin w)" "grades (cat_with w gs) = gs"
  by (simp_all add: cat_with_def)

lemma average64_points:
  "0 < m \<Longrightarrow> spec_category_average64 [points s m]
     = Some (mul64 (div64 (add64 (Fin 0) (Fin s)) (add64 (Fin 0) (Fin m))) (Fin 100))"
  by (simp add: spec_category_average64_def spec_valid_points points_simps sum64_def)

lemma average_points: "0 < m \<Longrightarrow> spec_category_average [points s m] = Some (100 * s / m)"
  by (simp add: spec_category_average_def spec_valid_points points_simps)

lemma average64_scored:
  "spec_category_average64 [scored x]
     = Some (mul64 (div64 (add64 (Fin 0) (Fin x)) (Fin 100)) (Fin 100))"
  by (simp add: spec_category_average64_def spec_valid_def scored_def sum64_def exact_operations)

lemma average64_scored_values:
  "spec_category_average64 [scored 90] = Some (Fin 90)"
  "spec_category_average64 [scored 80] = Some (Fin 80)"
  "spec_category_average64 [scored 70] = Some (Fin 70)"
  by (simp_all add: average64_scored exact_operations div64_6 mul64_7 div64_8 mul64_9 div64_10 mul64_11)

lemma spec_with_data64_Nil: "spec_with_data64 [] = []"
  by (simp add: spec_with_data64_def map_filter_simps)

lemma spec_with_data64_Cons:
  "spec_with_data64 (c # cats) =
     (case spec_category_average64 (grades c) of
        None \<Rightarrow> spec_with_data64 cats
      | Some a \<Rightarrow> (a, the_real (weight c)) # spec_with_data64 cats)"
  by (simp add: spec_with_data64_def map_filter_simps split: option.split)

lemma spec_with_data_Nil: "spec_with_data [] = []"
  by (simp add: spec_with_data_def map_filter_simps)

lemma spec_with_data_Cons:
  "spec_with_data (c # cats) =
     (case spec_category_average (grades c) of
        None \<Rightarrow> spec_with_data cats
      | Some a \<Rightarrow> (a, the_real (weight c)) # spec_with_data cats)"
  by (simp add: spec_with_data_def map_filter_simps split: option.split)

lemma cat_of_simps: "weight (cat_of i x w) = Num (Fin w)" "grades (cat_of i x w) = [scored x]"
  by (simp_all add: cat_of_def)

lemma typed_cat_of: "typed_category (cat_of i x w)"
  by (simp add: typed_category_def typed_grade_def cat_of_def scored_def)

lemma empty_cat_simps: "grades empty_cat = []" "typed_category empty_cat"
  by (simp_all add: empty_cat_def typed_category_def)

lemma average64_Nil: "spec_category_average64 [] = None"
  by (simp add: spec_category_average64_def)

lemma average64_points_values:
  "spec_category_average64 [points 16 25] = Some (Fin 64)"
  "spec_category_average64 [points 68 75] = Some (Fin (3190049736054101 / 35184372088832))"
  "spec_category_average64 [points 1 1] = Some (Fin 100)"
  "spec_category_average64 [points 17 60] = Some (Fin (7975124340135253 / 281474976710656))"
  "spec_category_average64 [points 55 60] = Some (Fin (3225234108142933 / 35184372088832))"
  by (simp_all add: average64_points exact_operations div64_13 mul64_14 div64_15 mul64_16 div64_20
      div64_24 mul64_25 div64_26 mul64_27)

section \<open>Lemmas on the operations\<close>








section \<open>Lemmas on the ids\<close>

lemma digit_char_code: "d < 10 \<Longrightarrow> of_char (digit_char d) = 48 + d"
proof -
  assume "d < 10"
  then have "d = 0 \<or> d = 1 \<or> d = 2 \<or> d = 3 \<or> d = 4 \<or> d = 5 \<or> d = 6 \<or> d = 7 \<or> d = 8 \<or> d = 9"
    by presburger
  then show ?thesis by (elim disjE) (simp_all add: digit_char_def)
qed

lemma digit_char_inj: "a < 10 \<Longrightarrow> b < 10 \<Longrightarrow> digit_char a = digit_char b \<Longrightarrow> a = b"
proof -
  assume a: "a < 10" and b: "b < 10" and eq: "digit_char a = digit_char b"
  from eq have "(of_char (digit_char a) :: nat) = of_char (digit_char b)" by (rule arg_cong)
  then have "48 + a = 48 + b"
    unfolding digit_char_code[OF a] digit_char_code[OF b] .
  then show ?thesis by simp
qed

lemma digit_char_not_minus: "d < 10 \<Longrightarrow> digit_char d \<noteq> CHR ''-''"
proof
  assume d: "d < 10" and eq: "digit_char d = CHR ''-''"
  from eq have "(of_char (digit_char d) :: nat) = of_char CHR ''-''" by (rule arg_cong)
  then have "48 + d = (45::nat)" unfolding digit_char_code[OF d] by simp
  then show False by simp
qed

lemma string_of_nat_unfold:
  "string_of_nat n =
     (if n < 10 then [digit_char n] else string_of_nat (n div 10) @ [digit_char (n mod 10)])"
  by (rule string_of_nat.simps)

lemma string_of_nat_small: "n < 10 \<Longrightarrow> string_of_nat n = [digit_char n]"
  by (subst string_of_nat_unfold) simp

lemma string_of_nat_large:
  "\<not> n < 10 \<Longrightarrow> string_of_nat n = string_of_nat (n div 10) @ [digit_char (n mod 10)]"
  by (subst string_of_nat_unfold) simp

lemma string_of_nat_digits: "set (string_of_nat n) \<subseteq> digit_char ` {..<10}"
proof (induction n rule: string_of_nat.induct)
  case (1 n)
  show ?case
  proof (cases "n < 10")
    case True
    then show ?thesis by (simp add: string_of_nat_small)
  next
    case False
    have "n mod 10 < 10" by simp
    then have "digit_char (n mod 10) \<in> digit_char ` {..<10}" by blast
    then show ?thesis using 1[OF False] by (simp add: string_of_nat_large[OF False])
  qed
qed

lemma string_of_nat_not_Nil: "string_of_nat n \<noteq> []"
  by (cases "n < 10") (simp_all add: string_of_nat_small string_of_nat_large)

lemma string_of_nat_inj: "string_of_nat n = string_of_nat m \<Longrightarrow> n = m"
proof (induction n arbitrary: m rule: string_of_nat.induct)
  case (1 n)
  note eq = \<open>string_of_nat n = string_of_nat m\<close>
  show ?case
  proof (cases "n < 10")
    case n: True
    show ?thesis
    proof (cases "m < 10")
      case True
      have "[digit_char n] = [digit_char m]"
        using eq unfolding string_of_nat_small[OF n] string_of_nat_small[OF True] .
      then show ?thesis using n True by (simp add: digit_char_inj)
    next
      case False
      have "[digit_char n] = string_of_nat (m div 10) @ [digit_char (m mod 10)]"
        using eq unfolding string_of_nat_small[OF n] string_of_nat_large[OF False] .
      then have "string_of_nat (m div 10) = []" by (simp add: Cons_eq_append_conv)
      then show ?thesis using string_of_nat_not_Nil by blast
    qed
  next
    case n: False
    show ?thesis
    proof (cases "m < 10")
      case True
      have "string_of_nat (n div 10) @ [digit_char (n mod 10)] = [digit_char m]"
        using eq unfolding string_of_nat_large[OF n] string_of_nat_small[OF True] .
      then have "string_of_nat (n div 10) = []" by (simp add: append_eq_Cons_conv)
      then show ?thesis using string_of_nat_not_Nil by blast
    next
      case False
      have "string_of_nat (n div 10) @ [digit_char (n mod 10)]
                = string_of_nat (m div 10) @ [digit_char (m mod 10)]"
        using eq unfolding string_of_nat_large[OF n] string_of_nat_large[OF False] .
      then have a: "string_of_nat (n div 10) = string_of_nat (m div 10)"
        and b: "digit_char (n mod 10) = digit_char (m mod 10)" by simp_all
      have "n div 10 = m div 10" using 1(1)[OF n a] .
      moreover have "n mod 10 = m mod 10" using b by (intro digit_char_inj) simp_all
      ultimately have "10 * (n div 10) + n mod 10 = 10 * (m div 10) + m mod 10" by simp
      then show ?thesis by simp
    qed
  qed
qed

lemma js_increment_safe: "- (2 ^ 53) \<le> n \<Longrightarrow> n < 2 ^ 53 \<Longrightarrow> js_increment n = n + 1"
proof -
  assume "- (2 ^ 53) \<le> n" "n < 2 ^ 53"
  then have "\<bar>n + 1\<bar> \<le> 2 ^ 53" by simp
  then show ?thesis by (simp add: js_increment_def round_int_def)
qed

lemma js_increment_stall: "js_increment 9007199254740992 = 9007199254740992"
proof -
  have b: "bitlen (9007199254740993 :: int) = 54"
    by (rule bitlen_eqI) simp_all
  show ?thesis
    by (simp add: js_increment_def round_int_def b Let_def)
qed

lemma js_increment_mono: "safe_counter n \<Longrightarrow> n \<le> js_increment n \<and> safe_counter (js_increment n)"
proof -
  assume s: "safe_counter n"
  show ?thesis
  proof (cases "n = 2 ^ 53")
    case True
    then have "n = 9007199254740992" by simp
    then show ?thesis by (simp add: js_increment_stall safe_counter_def)
  next
    case False
    then have "n < 2 ^ 53" "- (2 ^ 53) \<le> n" using s by (simp_all add: safe_counter_def)
    then show ?thesis using js_increment_safe[of n] by (simp add: safe_counter_def)
  qed
qed

lemma number_to_string_decimal:
  "\<bar>i\<bar> < 10 ^ 21 \<Longrightarrow>
   number_to_string i =
     (if i < 0 then CHR ''-'' # string_of_nat (nat (- i)) else string_of_nat (nat i))"
  by (simp add: number_to_string_def Let_def abs_if)

lemma safe_decimal: "- (2 ^ 53) \<le> k \<Longrightarrow> k \<le> 2 ^ 53 \<Longrightarrow> \<bar>k\<bar> < (10::int) ^ 21"
  by simp

lemma minus_not_string_of_nat: "CHR ''-'' # t \<noteq> string_of_nat k"
proof
  assume "CHR ''-'' # t = string_of_nat k"
  then have "CHR ''-'' \<in> set (string_of_nat k)" by (metis list.set_intros(1))
  then obtain d where "d < 10" "CHR ''-'' = digit_char d"
    using string_of_nat_digits[of k] by auto
  then show False using digit_char_not_minus[of d] by simp
qed

lemma number_to_string_inj:
  assumes "\<bar>i\<bar> < 10 ^ 21" "\<bar>j\<bar> < 10 ^ 21" "number_to_string i = number_to_string j"
  shows "i = j"
proof -
  note eq = assms(3)[unfolded number_to_string_decimal[OF assms(1)]
      number_to_string_decimal[OF assms(2)]]
  show ?thesis
  proof (cases "i < 0")
    case i: True
    show ?thesis
    proof (cases "j < 0")
      case True
      then have "string_of_nat (nat (- i)) = string_of_nat (nat (- j))"
        using eq i by simp
      then have "nat (- i) = nat (- j)" by (rule string_of_nat_inj)
      then show ?thesis using i True by simp
    next
      case False
      then have "CHR ''-'' # string_of_nat (nat (- i)) = string_of_nat (nat j)"
        using eq i by simp
      then show ?thesis using minus_not_string_of_nat by blast
    qed
  next
    case i: False
    show ?thesis
    proof (cases "j < 0")
      case True
      then have "CHR ''-'' # string_of_nat (nat (- j)) = string_of_nat (nat i)"
        using eq i by simp
      then show ?thesis using minus_not_string_of_nat by blast
    next
      case False
      then have "string_of_nat (nat i) = string_of_nat (nat j)"
        using eq i by simp
      then have "nat i = nat j" by (rule string_of_nat_inj)
      then show ?thesis using i False by simp
    qed
  qed
qed

lemma safe_inj:
  assumes "- (2 ^ 53) \<le> i" "i \<le> 2 ^ 53" "- (2 ^ 53) \<le> j" "j \<le> 2 ^ 53"
    "number_to_string i = number_to_string j"
  shows "i = j"
  using number_to_string_inj[OF safe_decimal[OF assms(1,2)] safe_decimal[OF assms(3,4)] assms(5)] .

lemma step_counters:
  assumes "safe_state s"
  shows "nextCategoryId s \<le> nextCategoryId (step x s) \<and>
         nextGradeId s \<le> nextGradeId (step x s) \<and> safe_state (step x s)"
  using assms js_increment_mono[of "nextCategoryId s"] js_increment_mono[of "nextGradeId s"]
  by (cases x)
    (simp_all add: safe_state_def createCategory_def removeCategory_def createGrade_def
      removeGrade_def Let_def split: option.split)

lemma run_counters:
  assumes "safe_state s"
  shows "nextCategoryId s \<le> nextCategoryId (run xs s) \<and>
         nextGradeId s \<le> nextGradeId (run xs s) \<and> safe_state (run xs s)"
  using assms
proof (induction xs arbitrary: s)
  case Nil
  then show ?case by simp
next
  case (Cons x xs)
  from step_counters[OF Cons.prems, of x] Cons.IH[of "step x s"]
  show ?case by fastforce
qed

lemma remove_keeps_counters:
  "nextCategoryId (removeCategory c s) = nextCategoryId s \<and>
   nextGradeId (removeCategory c s) = nextGradeId s \<and>
   nextCategoryId (removeGrade c g s) = nextCategoryId s \<and>
   nextGradeId (removeGrade c g s) = nextGradeId s"
  by (simp add: removeCategory_def removeGrade_def split: option.split)

lemma minted_from_mono:
  assumes "minted_from c g x" "c' \<le> c" "g' \<le> g"
  shows "minted_from c' g' x"
proof -
  from assms(1) consider k where "c \<le> k" "k < 2 ^ 53" "x = ''cat-'' @ number_to_string k"
    | k where "g \<le> k" "k < 2 ^ 53" "x = ''grade-'' @ number_to_string k"
    unfolding minted_from_def by blast
  then show ?thesis
  proof cases
    case 1
    then have "c' \<le> k" using assms(2) by simp
    then show ?thesis unfolding minted_from_def using 1(2,3) by blast
  next
    case 2
    then have "g' \<le> k" using assms(3) by simp
    then show ?thesis unfolding minted_from_def using 2(2,3) by blast
  qed
qed

lemma minted_before_mono:
  assumes "minted_before c g x" "c \<le> c'" "g \<le> g'"
  shows "minted_before c' g' x"
proof -
  from assms(1) consider k where "- (2 ^ 53) \<le> k" "k < c" "x = ''cat-'' @ number_to_string k"
    | k where "- (2 ^ 53) \<le> k" "k < g" "x = ''grade-'' @ number_to_string k"
    unfolding minted_before_def by blast
  then show ?thesis
  proof cases
    case 1
    then have "k < c'" using assms(2) by simp
    then show ?thesis unfolding minted_before_def using 1(1,3) by blast
  next
    case 2
    then have "k < g'" using assms(3) by simp
    then show ?thesis unfolding minted_before_def using 2(1,3) by blast
  qed
qed

lemma before_not_from:
  assumes "minted_before c g x" "minted_from c g x" "c \<le> 2 ^ 53" "g \<le> 2 ^ 53"
  shows False
proof -
  from assms(1) consider k where "- (2 ^ 53) \<le> k" "k < c" "x = ''cat-'' @ number_to_string k"
    | k where "- (2 ^ 53) \<le> k" "k < g" "x = ''grade-'' @ number_to_string k"
    unfolding minted_before_def by blast
  then show False
  proof cases
    case 1
    from assms(2) obtain j where j: "c \<le> j" "j < 2 ^ 53" "x = ''cat-'' @ number_to_string j"
      unfolding minted_from_def using 1(3) by auto
    have "number_to_string k = number_to_string j" using 1(3) j(3) by simp
    then have "k = j" using 1(1,2) j(1,2) assms(3) by (intro safe_inj) simp_all
    then show False using 1(2) j(1) by simp
  next
    case 2
    from assms(2) obtain j where j: "g \<le> j" "j < 2 ^ 53" "x = ''grade-'' @ number_to_string j"
      unfolding minted_from_def using 2(3) by auto
    have "number_to_string k = number_to_string j" using 2(3) j(3) by simp
    then have "k = j" using 2(1,2) j(1,2) assms(4) by (intro safe_inj) simp_all
    then show False using 2(2) j(1) by simp
  qed
qed

lemma step_minted_cases:
  "step_minted x s = [] \<or>
   (step_minted x s = [''cat-'' @ number_to_string (nextCategoryId s)] \<and>
      nextCategoryId (step x s) = js_increment (nextCategoryId s) \<and>
      nextGradeId (step x s) = nextGradeId s) \<or>
   (step_minted x s = [''grade-'' @ number_to_string (nextGradeId s)] \<and>
      nextGradeId (step x s) = js_increment (nextGradeId s) \<and>
      nextCategoryId (step x s) = nextCategoryId s)"
  by (cases x) (simp_all add: createCategory_def createGrade_def Let_def split: option.split)

lemma below_limit_Cons:
  assumes "below_limit (y # ys) s"
  shows "below_limit ys (step y s)" "nextCategoryId s < 2 ^ 53" "nextGradeId s < 2 ^ 53"
    "nextCategoryId s \<le> nextCategoryId (step y s)" "nextGradeId s \<le> nextGradeId (step y s)"
    "nextCategoryId (step y s) < 2 ^ 53" "nextGradeId (step y s) < 2 ^ 53"
proof -
  from assms have s: "safe_state s" and f: "nextCategoryId (run ys (step y s)) < 2 ^ 53"
    "nextGradeId (run ys (step y s)) < 2 ^ 53" by (simp_all add: below_limit_def)
  from step_counters[OF s, of y] have st: "safe_state (step y s)"
    and m: "nextCategoryId s \<le> nextCategoryId (step y s)" "nextGradeId s \<le> nextGradeId (step y s)"
    by simp_all
  from run_counters[OF st, of ys] have r: "nextCategoryId (step y s) \<le> nextCategoryId (run ys (step y s))"
    "nextGradeId (step y s) \<le> nextGradeId (run ys (step y s))" by simp_all
  show "below_limit ys (step y s)" using st f by (simp add: below_limit_def)
  show "nextCategoryId s \<le> nextCategoryId (step y s)" "nextGradeId s \<le> nextGradeId (step y s)"
    using m by simp_all
  show "nextCategoryId (step y s) < 2 ^ 53" "nextGradeId (step y s) < 2 ^ 53" using r f by simp_all
  then show "nextCategoryId s < 2 ^ 53" "nextGradeId s < 2 ^ 53" using m by simp_all
qed

lemma step_minted_from:
  assumes "below_limit (y # ys) s" "x \<in> set (step_minted y s)"
  shows "minted_from (nextCategoryId s) (nextGradeId s) x"
  using step_minted_cases[of y s] assms(2) below_limit_Cons(2,3)[OF assms(1)]
  by (auto simp: minted_from_def)

lemma minted_bound:
  "below_limit xs s \<Longrightarrow> x \<in> set (minted xs s) \<Longrightarrow>
   minted_from (nextCategoryId s) (nextGradeId s) x"
proof (induction xs arbitrary: s)
  case Nil
  then show ?case by simp
next
  case (Cons y ys)
  from Cons.prems(2) have "x \<in> set (step_minted y s) \<or> x \<in> set (minted ys (step y s))" by simp
  then show ?case
  proof
    assume "x \<in> set (step_minted y s)"
    then show ?thesis using step_minted_from[OF Cons.prems(1)] by simp
  next
    assume "x \<in> set (minted ys (step y s))"
    then have "minted_from (nextCategoryId (step y s)) (nextGradeId (step y s)) x"
      using Cons.IH[OF below_limit_Cons(1)[OF Cons.prems(1)]] by simp
    then show ?thesis
      using below_limit_Cons(4,5)[OF Cons.prems(1)] by (rule minted_from_mono)
  qed
qed

lemma own_id_before:
  assumes "safe_counter c" "c < 2 ^ 53"
  shows "minted_before (js_increment c) g (''cat-'' @ number_to_string c)"
    "minted_before g (js_increment c) (''grade-'' @ number_to_string c)"
  using assms js_increment_safe[of c] by (auto simp: minted_before_def safe_counter_def)

lemma distinct_minted: "below_limit xs s \<Longrightarrow> distinct (minted xs s)"
proof (induction xs arbitrary: s)
  case Nil
  show ?case by simp
next
  case (Cons y ys)
  note b = below_limit_Cons[OF Cons.prems]
  have ih: "distinct (minted ys (step y s))" using Cons.IH[OF b(1)] .
  have s: "safe_counter (nextCategoryId s)" "safe_counter (nextGradeId s)"
    using Cons.prems by (simp_all add: below_limit_def safe_state_def)
  have later: "minted_from (nextCategoryId (step y s)) (nextGradeId (step y s)) x"
    if "x \<in> set (minted ys (step y s))" for x
    using minted_bound[OF b(1) that] .
  consider "step_minted y s = []"
    | "step_minted y s = [''cat-'' @ number_to_string (nextCategoryId s)]"
      "nextCategoryId (step y s) = js_increment (nextCategoryId s)"
    | "step_minted y s = [''grade-'' @ number_to_string (nextGradeId s)]"
      "nextGradeId (step y s) = js_increment (nextGradeId s)"
    using step_minted_cases[of y s] by blast
  then show ?case
  proof cases
    case 1
    then show ?thesis using ih by simp
  next
    case 2
    have "''cat-'' @ number_to_string (nextCategoryId s) \<notin> set (minted ys (step y s))"
    proof
      assume "''cat-'' @ number_to_string (nextCategoryId s) \<in> set (minted ys (step y s))"
      from later[OF this] own_id_before(1)[OF s(1) b(2), of "nextGradeId (step y s)"]
      show False using before_not_from b(6,7) 2(2) by (metis less_imp_le)
    qed
    then show ?thesis using ih 2(1) by simp
  next
    case 3
    have "''grade-'' @ number_to_string (nextGradeId s) \<notin> set (minted ys (step y s))"
    proof
      assume "''grade-'' @ number_to_string (nextGradeId s) \<in> set (minted ys (step y s))"
      from later[OF this] own_id_before(2)[OF s(2) b(3), of "nextCategoryId (step y s)"]
      show False using before_not_from b(6,7) 3(2) by (metis less_imp_le)
    qed
    then show ?thesis using ih 3(1) by simp
  qed
qed

lemma minted_fresh:
  assumes "below_limit xs s" "ids_below s" "x \<in> set (minted xs s)"
  shows "x \<notin> set (ids s)"
proof
  assume "x \<in> set (ids s)"
  then have "minted_before (nextCategoryId s) (nextGradeId s) x"
    using assms(2) by (simp add: ids_below_def)
  moreover have "minted_from (nextCategoryId s) (nextGradeId s) x"
    using minted_bound[OF assms(1,3)] .
  moreover have "nextCategoryId s \<le> 2 ^ 53" "nextGradeId s \<le> 2 ^ 53"
    using assms(1) by (simp_all add: below_limit_def safe_state_def safe_counter_def)
  ultimately show False using before_not_from by blast
qed

lemma set_ids: "set (ids s) = ids_of (categories s)"
  by (auto simp: ids_def ids_of_def)

lemma ids_of_Nil: "ids_of [] = {}"
  by (simp add: ids_of_def)

lemma ids_of_Cons: "ids_of (c # cats) = insert (c_id c) (g_id ` set (grades c)) \<union> ids_of cats"
  by (auto simp: ids_of_def)

lemma ids_of_update_first:
  assumes "\<And>c. c_id (f c) = c_id c" "\<And>c. g_id ` set (grades (f c)) \<subseteq> g_id ` set (grades c) \<union> A"
  shows "ids_of (update_first P f cats) \<subseteq> ids_of cats \<union> A"
proof (induction cats)
  case Nil
  show ?case by (simp add: ids_of_Nil)
next
  case (Cons c cats)
  show ?case
  proof (cases "P c")
    case True
    then have "ids_of (update_first P f (c # cats))
      = insert (c_id c) (g_id ` set (grades (f c))) \<union> ids_of cats"
      by (simp add: ids_of_Cons assms(1))
    then show ?thesis using assms(2)[of c] unfolding ids_of_Cons[of c cats] by blast
  next
    case False
    then have "ids_of (update_first P f (c # cats))
      = insert (c_id c) (g_id ` set (grades c)) \<union> ids_of (update_first P f cats)"
      by (simp add: ids_of_Cons)
    then show ?thesis using Cons.IH unfolding ids_of_Cons[of c cats] by blast
  qed
qed

lemma ids_of_step: "ids_of (categories (step x s)) \<subseteq> ids_of (categories s) \<union> set (step_minted x s)"
proof (cases x)
  case (CreateCategory name w)
  then show ?thesis by (auto simp: createCategory_def Let_def ids_of_def)
next
  case (RemoveCategory categoryId)
  then show ?thesis by (auto simp: removeCategory_def ids_of_def)
next
  case (CreateGrade categoryId name sc mx)
  show ?thesis
  proof (cases "find (\<lambda>c. c_id c = categoryId) (categories s)")
    case None
    then show ?thesis using CreateGrade by (simp add: createGrade_def)
  next
    case (Some c)
    let ?g = "\<lparr>g_id = ''grade-'' @ number_to_string (nextGradeId s),
               g_name = (case name of None \<Rightarrow> [] | Some n \<Rightarrow> n),
               score = (if sc = Undefined then Null else sc),
               g_max = (if mx = Undefined then Num (Fin 100) else mx)\<rparr>"
    have "ids_of (update_first (\<lambda>c. c_id c = categoryId) (\<lambda>c. c\<lparr>grades := grades c @ [?g]\<rparr>)
            (categories s)) \<subseteq> ids_of (categories s) \<union> {g_id ?g}"
      by (rule ids_of_update_first) auto
    then show ?thesis using CreateGrade Some by (simp add: createGrade_def Let_def)
  qed
next
  case (RemoveGrade categoryId gradeId)
  show ?thesis
  proof (cases "find (\<lambda>c. c_id c = categoryId) (categories s)")
    case None
    then show ?thesis using RemoveGrade by (simp add: removeGrade_def)
  next
    case (Some c)
    have "ids_of (update_first (\<lambda>c. c_id c = categoryId)
             (\<lambda>c. c\<lparr>grades := filter (\<lambda>g. g_id g \<noteq> gradeId) (grades c)\<rparr>) (categories s))
          \<subseteq> ids_of (categories s) \<union> {}"
      by (rule ids_of_update_first) auto
    then show ?thesis using RemoveGrade Some by (simp add: removeGrade_def)
  qed
qed

lemma step_minted_before:
  assumes "safe_state s" "nextCategoryId s < 2 ^ 53" "nextGradeId s < 2 ^ 53"
    "x \<in> set (step_minted y s)"
  shows "minted_before (nextCategoryId (step y s)) (nextGradeId (step y s)) x"
proof -
  have s: "safe_counter (nextCategoryId s)" "safe_counter (nextGradeId s)"
    using assms(1) by (simp_all add: safe_state_def)
  from step_minted_cases[of y s] assms(4) consider
    "x = ''cat-'' @ number_to_string (nextCategoryId s)"
      "nextCategoryId (step y s) = js_increment (nextCategoryId s)"
    | "x = ''grade-'' @ number_to_string (nextGradeId s)"
      "nextGradeId (step y s) = js_increment (nextGradeId s)"
    by auto
  then show ?thesis
  proof cases
    case 1
    then show ?thesis using own_id_before(1)[OF s(1) assms(2)] by simp
  next
    case 2
    then show ?thesis using own_id_before(2)[OF s(2) assms(3)] by simp
  qed
qed

lemma ids_below_step:
  assumes "safe_state s" "nextCategoryId s < 2 ^ 53" "nextGradeId s < 2 ^ 53" "ids_below s"
  shows "ids_below (step y s)"
  unfolding ids_below_def
proof
  fix x assume "x \<in> set (ids (step y s))"
  then have "x \<in> ids_of (categories s) \<or> x \<in> set (step_minted y s)"
    using ids_of_step[of y s] by (auto simp: set_ids)
  then show "minted_before (nextCategoryId (step y s)) (nextGradeId (step y s)) x"
  proof
    assume "x \<in> ids_of (categories s)"
    then have "minted_before (nextCategoryId s) (nextGradeId s) x"
      using assms(4) by (simp add: ids_below_def set_ids)
    then show ?thesis using step_counters[OF assms(1), of y] by (auto elim: minted_before_mono)
  next
    assume "x \<in> set (step_minted y s)"
    then show ?thesis using step_minted_before[OF assms(1,2,3)] by simp
  qed
qed

lemma ids_below_run: "below_limit xs s \<Longrightarrow> ids_below s \<Longrightarrow> ids_below (run xs s)"
proof (induction xs arbitrary: s)
  case Nil
  then show ?case by simp
next
  case (Cons y ys)
  note b = below_limit_Cons[OF Cons.prems(1)]
  have "safe_state s" using Cons.prems(1) by (simp add: below_limit_def)
  then have "ids_below (step y s)" using b(2,3) Cons.prems(2) by (rule ids_below_step)
  then show ?case using Cons.IH[OF b(1)] by simp
qed

lemma number_to_string_digit: "0 \<le> i \<Longrightarrow> i < 10 \<Longrightarrow> number_to_string i = [digit_char (nat i)]"
  by (simp add: number_to_string_def string_of_nat_small Let_def)

lemma digit_chars:
  "digit_char 1 = CHR ''1''" "digit_char (Suc 0) = CHR ''1''" "digit_char 2 = CHR ''2''"
  by (simp_all add: digit_char_def)

lemma number_to_string_limit: "number_to_string 9007199254740992 = ''9007199254740992''"
  by (simp add: number_to_string_def Let_def string_of_nat_unfold digit_char_def)

lemma js_increment_small: "js_increment 1 = 2" "js_increment 2 = 3"
  by (simp_all add: js_increment_def round_int_def)

lemma initial_ok: "safe_state initial_state \<and> ids_below initial_state"
  by (simp add: safe_state_def safe_counter_def initial_state_def ids_below_def ids_def)

lemma number_to_string_minus_one: "number_to_string (- 1) = ''-1''"
  by (simp add: number_to_string_def Let_def string_of_nat_small digit_char_def)

lemma floor_minus_one: "\<lfloor>- 1 :: real\<rfloor> = - 1"
  by linarith

lemma js_increment_minus_one: "js_increment (- 1) = 0"
  by (simp add: js_increment_def round_int_def)

section \<open>Lemmas on local storage\<close>

lemma get_prop_not_null: "d \<noteq> JNull \<Longrightarrow> get_prop d k = Inr (prop_of d k)"
  by (cases d) simp_all

lemma loadState_document:
  assumes "stored_document st = Some d"
  shows "loadState st s = (True, defaults_applied d)"
proof -
  from assms have a: "available st" and i: "item st = Some (Json_Text d)" and n: "d \<noteq> JNull"
    by (auto simp: stored_document_def split: if_splits option.splits stored_text.splits)
  show ?thesis
    by (simp add: loadState_def getItem_def a i get_prop_not_null[OF n] defaults_applied_def)
qed

lemma loadState_no_document:
  assumes "stored_document st = None"
  shows "loadState st s = (False, s)"
proof (cases "available st")
  case False
  then show ?thesis by (simp add: loadState_def getItem_def)
next
  case a: True
  show ?thesis
  proof (cases "item st")
    case None
    then show ?thesis using a by (simp add: loadState_def getItem_def)
  next
    case (Some t)
    show ?thesis
    proof (cases t)
      case (Json_Text j)
      then have "j = JNull" using assms a Some
        by (simp add: stored_document_def split: if_splits)
      then show ?thesis using a Some Json_Text by (simp add: loadState_def getItem_def)
    qed (use a Some in \<open>simp_all add: loadState_def getItem_def\<close>)
  qed
qed

lemma those_map_inverse:
  "\<forall>x \<in> set xs. f (g x) = Some x \<Longrightarrow> those (map f (map g xs)) = Some xs"
  by (induction xs) simp_all

lemma field_roundtrip:
  assumes "is_num_or_null v" "k \<notin> fst ` set pre"
  shows "field_of_json (map_of (pre @ json_field k v @ post) k) = Some v"
proof -
  have p: "map_of pre k = None" using assms(2) by (simp add: map_of_eq_None_iff)
  from assms(1) consider "v = Null" | x where "v = Num (Fin x)"
    by (auto simp: is_num_or_null_cases)
  then show ?thesis by cases (simp_all add: map_add_def p)
qed

lemma json_field_keys: "fst ` set (json_field k v) \<subseteq> {k}"
  by (cases "(k, v)" rule: json_field.cases) auto

lemma grade_roundtrip: "typed_grade g \<Longrightarrow> grade_of_json (json_of_grade g) = Some g"
proof -
  assume t: "typed_grade g"
  let ?pre = "[(''id'', JStr (g_id g)), (''name'', JStr (g_name g))]"
  let ?fs = "?pre @ json_field ''score'' (score g) @ json_field ''max'' (g_max g)"
  have i: "map_of ?fs ''id'' = Some (JStr (g_id g))" and n: "map_of ?fs ''name'' = Some (JStr (g_name g))"
    by simp_all
  have s: "field_of_json (map_of ?fs ''score'') = Some (score g)"
    using t by (intro field_roundtrip) (simp_all add: typed_grade_def)
  have "field_of_json (map_of ((?pre @ json_field ''score'' (score g)) @ json_field ''max'' (g_max g) @ []) ''max'')
        = Some (g_max g)"
    using t json_field_keys[of "''score''" "score g"]
    by (intro field_roundtrip) (auto simp: typed_grade_def)
  then have m: "field_of_json (map_of ?fs ''max'') = Some (g_max g)" by simp
  show ?thesis
    unfolding json_of_grade_def grade_of_json.simps i n s m by simp
qed

lemma grades_roundtrip:
  "list_all typed_grade gs \<Longrightarrow> those (map (grade_of_json \<circ> json_of_grade) gs) = Some gs"
  using those_map_inverse[of gs grade_of_json json_of_grade]
  by (simp add: list_all_iff grade_roundtrip)

lemma category_roundtrip: "typed_category c \<Longrightarrow> category_of_json (json_of_category c) = Some c"
proof -
  assume t: "typed_category c"
  then obtain w where w: "weight c = Num (Fin w)" and g: "list_all typed_grade (grades c)"
    by (auto simp: typed_category_def is_finite_cases)
  show ?thesis
    by (simp add: json_of_category_def w grades_roundtrip[OF g])
qed

lemma saved_document:
  "available st \<Longrightarrow> stored_document (saveState s st) = Some (dataToSave s)"
  by (simp add: stored_document_def saveState_def dataToSave_def)

lemma defaults_of_saved:
  assumes "nextCategoryId s \<noteq> 0" "nextGradeId s \<noteq> 0"
  shows "defaults_applied (dataToSave s) =
     \<lparr>l_categories = JArr (map json_of_category (categories s)),
      l_isWeighted = JBool (isWeighted s),
      l_nextCategoryId = JNum (of_int (nextCategoryId s)),
      l_nextGradeId = JNum (of_int (nextGradeId s))\<rparr>"
  using assms by (simp add: defaults_applied_def dataToSave_def)

lemma state_of_saved:
  assumes "typed_state s"
  shows "state_of_loaded
     \<lparr>l_categories = JArr (map json_of_category (categories s)),
      l_isWeighted = JBool (isWeighted s),
      l_nextCategoryId = JNum (of_int (nextCategoryId s)),
      l_nextGradeId = JNum (of_int (nextGradeId s))\<rparr> = Some s"
proof -
  have "those (map category_of_json (map json_of_category (categories s))) = Some (categories s)"
    using assms by (intro those_map_inverse) (simp add: typed_state_def list_all_iff category_roundtrip)
  then show ?thesis by (simp add: state_of_loaded_def)
qed

section \<open>The claims\<close>

text \<open>
  C1, as the code has it. For every list of grade items whose score and max are a
  finite number or \<^verbatim>\<open>null\<close>, \<^verbatim>\<open>calculateCategoryAverage\<close> filters to the valid items
  (score and max present, max positive); it returns \<^verbatim>\<open>null\<close> when no item is valid, and
  otherwise the sum of the valid scores over the sum of the valid maxima, times 100,
  in the arithmetic of doubles: the sums from 0 and left to right, the quotient
  before the product, every operation rounded. It is points earned over points
  possible, not the mean of the items' percentages.
\<close>

theorem calculateCategoryAverage64_spec:
  assumes "list_all typed_grade gs"
  shows "validGrades gs = filter spec_valid gs \<and>
         calculateCategoryAverage64 gs = js_of_number (spec_category_average64 gs)"
  using assms validGrades_typed average64_typed by blast

text \<open>
  The items 9/10 and 40/50 give 49/60 rounded, times 100, rounded: the double
  81.66666666666667, and not the mean 85 of 90 and 80.
\<close>

theorem calculateCategoryAverage64_spec_witness:
  "list_all typed_grade [quiz, exam] \<and>
   validGrades [quiz, exam] = [quiz, exam] \<and>
   calculateCategoryAverage64 [quiz, exam] = Num (Fin (5746780774509227 / 2 ^ 46)) \<and>
   calculateCategoryAverage64 [quiz, exam] \<noteq> Num (Fin 85)"
proof -
  have t: "list_all typed_grade [quiz, exam]"
    by (simp add: typed_grade_def quiz_def exam_def)
  have sv: "spec_valid quiz" "spec_valid exam"
    by (simp_all add: spec_valid_def quiz_def exam_def)
  have f: "score quiz = Num (Fin 9)" "g_max quiz = Num (Fin 10)"
    "score exam = Num (Fin 40)" "g_max exam = Num (Fin 50)"
    by (simp_all add: quiz_def exam_def)
  have s: "spec_category_average64 [quiz, exam] = Some (Fin (5746780774509227 / 2 ^ 46))"
    by (simp add: spec_category_average64_def sv sum64_def f exact_operations div64_1 mul64_2)
  show ?thesis using t calculateCategoryAverage64_spec[OF t] by (simp add: s sv)
qed

text \<open>
  The item 29/100: 100 times 29 over 100 is 29, also when a double multiplies first
  and divides then, and the code returns 28.999999999999996, the quotient 0.29
  rounded and then multiplied. Two items \<open>2^1023/2^1023\<close>: both sums overflow to
  \<^verbatim>\<open>Infinity\<close>, and the code returns \<^verbatim>\<open>NaN\<close> where the formula gives 100.
\<close>

theorem average_rounding_counterexample:
  "list_all typed_grade [points 29 100] \<and>
   spec_category_average [points 29 100] = Some 29 \<and>
   calculateCategoryAverage64 [points 29 100] = Num (Fin (8162774324609023 / 2 ^ 48)) \<and>
   calculateCategoryAverage64 [points 29 100] \<noteq> Num (Fin 29) \<and>
   div64 (mul64 (Fin 100) (Fin 29)) (Fin 100) = Fin 29 \<and>
   list_all typed_grade [points huge huge, points huge huge] \<and>
   spec_category_average [points huge huge, points huge huge] = Some 100 \<and>
   calculateCategoryAverage64 [points huge huge, points huge huge] = Num NaN"
proof -
  have t: "list_all typed_grade [points 29 100]" "list_all typed_grade [points huge huge, points huge huge]"
    by (simp_all add: typed_points)
  have a: "spec_category_average [points 29 100] = Some 29"
    by (simp add: average_points)
  have b: "calculateCategoryAverage64 [points 29 100] = Num (Fin (8162774324609023 / 2 ^ 48))"
    by (simp add: average64_typed[OF t(1)] average64_points exact_operations div64_3 mul64_4)
  have c: "div64 (mul64 (Fin 100) (Fin 29)) (Fin 100) = Fin 29"
    by (simp add: exact_operations div64_5)
  have d: "spec_category_average [points huge huge, points huge huge] = Some 100"
    using huge_pos by (simp add: spec_category_average_def spec_valid_points points_simps)
  have e: "calculateCategoryAverage64 [points huge huge, points huge huge] = Num NaN"
    using huge_pos
    by (simp add: average64_typed[OF t(2)] spec_category_average64_def spec_valid_points points_simps
        sum64_def add64_huge div64_def mul64_def rounded_def)
  show ?thesis using t a b c d e by simp
qed

text \<open>
  C2, as the code has it. For categories whose weights are finite numbers and whose
  items are typed as above, \<^verbatim>\<open>calculateFinalGrade\<close> in weighted mode drops the
  categories without data, returns \<^verbatim>\<open>null\<close> when no category has data or when the
  weights of the remaining categories, added as doubles, give zero, and otherwise
  returns the sum of average times weight over the sum of the weights, both over the
  categories with data and in the arithmetic of doubles, the averages being those
  that \<^verbatim>\<open>calculateCategoryAverage\<close> returns.
\<close>

theorem calculateFinalGrade64_weighted_spec:
  assumes "list_all typed_category cats"
  shows "calculateFinalGrade64 cats True = js_of_number (spec_final_weighted64 cats)"
  using assms by (rule final_weighted64_typed)

text \<open>
  Averages 90 and 80 with weights 50 and 50 give 85; a category without grades does
  not dilute the weights.
\<close>

theorem calculateFinalGrade64_weighted_spec_witness:
  "list_all typed_category [cat_of ''cat-1'' 90 50, empty_cat, cat_of ''cat-2'' 80 50] \<and>
   calculateFinalGrade64 [cat_of ''cat-1'' 90 50, empty_cat, cat_of ''cat-2'' 80 50] True
     = Num (Fin 85)"
proof -
  let ?cats = "[cat_of ''cat-1'' 90 50, empty_cat, cat_of ''cat-2'' 80 50]"
  have t: "list_all typed_category ?cats"
    by (simp add: typed_cat_of empty_cat_simps)
  have d: "spec_with_data64 ?cats = [(Fin 90, 50), (Fin 80, 50)]"
    by (simp add: spec_with_data64_Cons spec_with_data64_Nil cat_of_simps empty_cat_simps
        average64_Nil average64_scored_values)
  have s: "spec_final_weighted64 ?cats = Some (Fin 85)"
    by (simp add: spec_final_weighted64_def d sum64_def exact_operations div64_12)
  show ?thesis using t calculateFinalGrade64_weighted_spec[OF t] by (simp add: s)
qed

text \<open>
  Weights 40 and 60 on the items 16/25 and 68/75: the formula gives 80, a B-, and the
  code returns 79.99999999999999, a C+. Weights \<open>10^16\<close>, 1 and \<open>-10^16\<close> on three
  categories with data: the weights sum to 1 and the formula gives 100, and the code,
  in which \<open>10^16 + 1\<close> is \<open>10^16\<close>, finds the sum 0 and returns \<^verbatim>\<open>null\<close>.
\<close>

theorem weighted_rounding_counterexample:
  "list_all typed_category [cat_with 40 [points 16 25], cat_with 60 [points 68 75]] \<and>
   spec_final_weighted [cat_with 40 [points 16 25], cat_with 60 [points 68 75]] = Some 80 \<and>
   calculateFinalGrade64 [cat_with 40 [points 16 25], cat_with 60 [points 68 75]] True
     = Num (Fin (5629499534213119 / 2 ^ 46)) \<and>
   getLetterGrade (Num (Fin 80)) = ''B-'' \<and>
   getLetterGrade (Num (Fin (5629499534213119 / 2 ^ 46))) = ''C+'' \<and>
   list_all typed_category
     [cat_with 10000000000000000 [points 1 1], cat_with 1 [points 1 1],
      cat_with (- 10000000000000000) [points 1 1]] \<and>
   spec_final_weighted
     [cat_with 10000000000000000 [points 1 1], cat_with 1 [points 1 1],
      cat_with (- 10000000000000000) [points 1 1]] = Some 100 \<and>
   calculateFinalGrade64
     [cat_with 10000000000000000 [points 1 1], cat_with 1 [points 1 1],
      cat_with (- 10000000000000000) [points 1 1]] True = Null"
proof -
  let ?cats = "[cat_with 40 [points 16 25], cat_with 60 [points 68 75]]"
  let ?zero = "[cat_with 10000000000000000 [points 1 1], cat_with 1 [points 1 1],
      cat_with (- 10000000000000000) [points 1 1]]"
  have t: "list_all typed_category ?cats" "list_all typed_category ?zero"
    by (simp_all add: typed_cat_with)
  have a: "spec_final_weighted ?cats = Some 80"
    by (simp add: spec_final_weighted_def spec_with_data_Cons spec_with_data_Nil cat_with_simps
        average_points)
  have d: "spec_with_data64 ?cats = [(Fin 64, 40), (Fin (3190049736054101 / 35184372088832), 60)]"
    by (simp add: spec_with_data64_Cons spec_with_data64_Nil cat_with_simps average64_points_values)
  have b: "calculateFinalGrade64 ?cats True = Num (Fin (5629499534213119 / 2 ^ 46))"
    by (simp add: final_weighted64_typed[OF t(1)] spec_final_weighted64_def d sum64_def
        exact_operations mul64_17 add64_18 div64_19)
  have l: "getLetterGrade (Num (Fin 80)) = ''B-''"
    "getLetterGrade (Num (Fin (5629499534213119 / 2 ^ 46))) = ''C+''"
    by (simp_all add: getLetterGrade_def js_ge_fin)
  have z: "spec_final_weighted ?zero = Some 100"
    by (simp add: spec_final_weighted_def spec_with_data_Cons spec_with_data_Nil cat_with_simps
        average_points)
  have dz: "spec_with_data64 ?zero
     = [(Fin 100, 10000000000000000), (Fin 100, 1), (Fin 100, - 10000000000000000)]"
    by (simp add: spec_with_data64_Cons spec_with_data64_Nil cat_with_simps average64_points_values)
  have n: "calculateFinalGrade64 ?zero True = Null"
    by (simp add: final_weighted64_typed[OF t(2)] spec_final_weighted64_def dz sum64_def
        exact_operations add64_21 add64_22)
  show ?thesis using t a b l z n by simp
qed

text \<open>
  C4, as the code has it. In unweighted mode \<^verbatim>\<open>calculateFinalGrade\<close> returns the sum
  of the averages of the categories with data over their number, in the arithmetic of
  doubles and with the averages that \<^verbatim>\<open>calculateCategoryAverage\<close> returns; no weight
  has any influence on the result: replacing every weight by any value at all leaves
  it unchanged.
\<close>

theorem calculateFinalGrade64_unweighted_spec:
  assumes "list_all typed_category cats"
  shows "calculateFinalGrade64 cats False = js_of_number (spec_final_unweighted64 cats) \<and>
         calculateFinalGrade64 (map (\<lambda>c. c\<lparr>weight := w c\<rparr>) cats) False
           = calculateFinalGrade64 cats False"
  using assms final_unweighted64_typed weights64_ignored by blast

text \<open>Averages 90 and 70 with weights 100 and 1 give 80, and so they do without weights.\<close>

theorem calculateFinalGrade64_unweighted_spec_witness:
  "list_all typed_category [cat_of ''cat-1'' 90 100, cat_of ''cat-2'' 70 1] \<and>
   calculateFinalGrade64 [cat_of ''cat-1'' 90 100, cat_of ''cat-2'' 70 1] False = Num (Fin 80) \<and>
   calculateFinalGrade64
     (map (\<lambda>c. c\<lparr>weight := Undefined\<rparr>) [cat_of ''cat-1'' 90 100, cat_of ''cat-2'' 70 1]) False
     = Num (Fin 80)"
proof -
  let ?cats = "[cat_of ''cat-1'' 90 100, cat_of ''cat-2'' 70 1]"
  have t: "list_all typed_category ?cats"
    by (simp add: typed_cat_of)
  have d: "spec_with_data64 ?cats = [(Fin 90, 100), (Fin 70, 1)]"
    by (simp add: spec_with_data64_Cons spec_with_data64_Nil cat_of_simps average64_scored_values)
  have s: "spec_final_unweighted64 ?cats = Some (Fin 80)"
    by (simp add: spec_final_unweighted64_def d sum64_def exact_operations div64_23)
  show ?thesis
    using t calculateFinalGrade64_unweighted_spec[OF t, of "\<lambda>c. Undefined"] by (simp add: s)
qed

text \<open>
  Two categories with the items 17/60 and 55/60: the mean of the averages is 60, a
  D-, and the code returns 59.99999999999999, an F.
\<close>

theorem unweighted_rounding_counterexample:
  "list_all typed_category [cat_with 100 [points 17 60], cat_with 100 [points 55 60]] \<and>
   spec_final_unweighted [cat_with 100 [points 17 60], cat_with 100 [points 55 60]] = Some 60 \<and>
   calculateFinalGrade64 [cat_with 100 [points 17 60], cat_with 100 [points 55 60]] False
     = Num (Fin (8444249301319679 / 2 ^ 47)) \<and>
   getLetterGrade (Num (Fin 60)) = ''D-'' \<and>
   getLetterGrade (Num (Fin (8444249301319679 / 2 ^ 47))) = ''F''"
proof -
  let ?cats = "[cat_with 100 [points 17 60], cat_with 100 [points 55 60]]"
  have t: "list_all typed_category ?cats"
    by (simp add: typed_cat_with)
  have a: "spec_final_unweighted ?cats = Some 60"
    by (simp add: spec_final_unweighted_def spec_with_data_Cons spec_with_data_Nil cat_with_simps
        average_points)
  have d: "spec_with_data64 ?cats
     = [(Fin (7975124340135253 / 281474976710656), 100), (Fin (3225234108142933 / 35184372088832), 100)]"
    by (simp add: spec_with_data64_Cons spec_with_data64_Nil cat_with_simps average64_points_values)
  have b: "calculateFinalGrade64 ?cats False = Num (Fin (8444249301319679 / 2 ^ 47))"
    by (simp add: final_unweighted64_typed[OF t] spec_final_unweighted64_def d sum64_def
        add64_28 add64_29 div64_30)
  have l: "getLetterGrade (Num (Fin 60)) = ''D-''"
    "getLetterGrade (Num (Fin (8444249301319679 / 2 ^ 47))) = ''F''"
    by (simp_all add: getLetterGrade_def js_ge_fin)
  show ?thesis using t a b l by simp
qed

text \<open>
  C3. On every percentage \<^verbatim>\<open>getLetterGrade\<close> returns the letter of the first threshold,
  from the highest down, that the percentage reaches (93 A, 90 A-, 87 B+, 83 B, 80 B-,
  77 C+, 73 C, 70 C-, 67 D+, 63 D, 60 D-, otherwise F); the comparison is on the value
  as it is, without rounding: 93 is an A, 92.999 an A-, 59.999 an F.
\<close>

theorem getLetterGrade_spec:
  "getLetterGrade (Num (Fin p)) = mapToLetterGrade p \<and>
   getLetterGrade (Num (Fin 93)) = ''A'' \<and>
   getLetterGrade (Num (Fin 92.999)) = ''A-'' \<and>
   getLetterGrade (Num (Fin 59.999)) = ''F''"
  by (simp add: getLetterGrade_def mapToLetterGrade_def letter_thresholds_def js_ge_fin)

text \<open>At 85 the letter is B, and the bound 90 itself is an A-.\<close>

theorem getLetterGrade_spec_witness:
  "getLetterGrade (Num (Fin 85)) = ''B'' \<and> mapToLetterGrade 90 = ''A-'' \<and> getLetterGrade (Num (Fin 90)) = ''A-''"
  using getLetterGrade_spec[of 85] getLetterGrade_spec[of 90]
  by (simp add: mapToLetterGrade_def letter_thresholds_def)

text \<open>
  C10, as the code has it. The filter of \<^verbatim>\<open>calculateCategoryAverage\<close> leaves out exactly
  the items whose score or max is \<^verbatim>\<open>null\<close> or whose max does not compare greater than
  0. An item whose \<^verbatim>\<open>score\<close> key is missing (\<^verbatim>\<open>undefined\<close> is not \<^verbatim>\<open>null\<close>) passes the
  filter and enters the sums, which makes the total and the average \<^verbatim>\<open>NaN\<close>. An item
  whose \<^verbatim>\<open>max\<close> key is missing does not pass: \<^verbatim>\<open>undefined > 0\<close> is false.
\<close>

theorem validGrades_only_null:
  "validGrades gs =
     filter (\<lambda>g. score g \<noteq> Null \<and> g_max g \<noteq> Null \<and> js_gt (g_max g) (Num (Fin 0))) gs \<and>
   score no_score = Undefined \<and>
   validGrades [no_score] = [no_score] \<and>
   totalScore (validGrades [no_score]) = Num NaN \<and>
   calculateCategoryAverage [no_score] = Num NaN \<and>
   g_max no_max = Undefined \<and>
   validGrades [no_max] = []"
  by (simp add: validGrades_def strict_ne_null no_score_def no_max_def js_gt_def
      totalScore_def totalMax_def calculateCategoryAverage_def js_add_def js_div_def js_mul_def)

text \<open>Among an item without score, a complete item and an item without max, the first two pass.\<close>

theorem validGrades_only_null_witness:
  "validGrades [no_score, quiz, no_max] = [no_score, quiz]"
  using validGrades_only_null[of "[no_score, quiz, no_max]"]
  by (simp add: no_score_def quiz_def no_max_def js_gt_def)

text \<open>
  An item whose max is missing, with a score of 5: it does not pass the filter, and
  the category has no data.
\<close>

theorem undefined_max_counterexample:
  "g_max no_max = Undefined \<and>
   score no_max = Num (Fin 5) \<and>
   validGrades [no_max] = [] \<and>
   calculateCategoryAverage [no_max] = Null"
  by (simp add: no_max_def validGrades_def js_gt_def calculateCategoryAverage_def)






text \<open>
  C8, as the code has it. The counters are doubles. While they are integers between
  \<open>-2^53\<close> and \<open>2^53\<close>, over every sequence of \<^verbatim>\<open>createCategory\<close>, \<^verbatim>\<open>createGrade\<close>,
  \<^verbatim>\<open>removeCategory\<close> and \<^verbatim>\<open>removeGrade\<close> the two counters never decrease, and the two
  removals leave them as they are. When both counters are still below \<open>2^53\<close> at the
  end of the sequence and every id of the starting state lies below its counter, the
  ids handed out are pairwise distinct, none of them is an id that the starting state
  already has, and every id of the final state lies below its counter again. The
  initial state is such a state; from it the first category is \<^verbatim>\<open>cat-1\<close>, and after
  its removal the next category is \<^verbatim>\<open>cat-2\<close>.
\<close>

theorem ids_never_reused:
  "(safe_state s \<longrightarrow>
      nextCategoryId s \<le> nextCategoryId (run xs s) \<and> nextGradeId s \<le> nextGradeId (run xs s)) \<and>
   nextCategoryId (removeCategory c s) = nextCategoryId s \<and>
   nextGradeId (removeCategory c s) = nextGradeId s \<and>
   nextCategoryId (removeGrade c g s) = nextCategoryId s \<and>
   nextGradeId (removeGrade c g s) = nextGradeId s \<and>
   (below_limit xs s \<and> ids_below s \<longrightarrow>
      distinct (minted xs s) \<and> set (minted xs s) \<inter> set (ids s) = {} \<and> ids_below (run xs s)) \<and>
   safe_state initial_state \<and> ids_below initial_state \<and>
   c_id (fst (createCategory name w initial_state)) = ''cat-1'' \<and>
   c_id (fst (createCategory name' w'
           (removeCategory ''cat-1'' (snd (createCategory name w initial_state))))) = ''cat-2''"
proof -
  have e1: "c_id (fst (createCategory name w initial_state)) = ''cat-1''"
    by (simp add: createCategory_def initial_state_def number_to_string_digit digit_chars Let_def)
  have e2: "c_id (fst (createCategory name' w'
           (removeCategory ''cat-1'' (snd (createCategory name w initial_state))))) = ''cat-2''"
    by (simp add: createCategory_def removeCategory_def initial_state_def number_to_string_digit
        digit_chars js_increment_small Let_def)
  have f: "set (minted xs s) \<inter> set (ids s) = {}" if "below_limit xs s" "ids_below s"
    using minted_fresh[OF that] by blast
  show ?thesis
    using run_counters[of s xs] remove_keeps_counters[of c s g] distinct_minted[of xs s]
      f ids_below_run[of xs s] initial_ok e1 e2
    by blast
qed

text \<open>
  The session creates \<^verbatim>\<open>cat-1\<close>, removes it, creates \<^verbatim>\<open>cat-2\<close> and a grade in it,
  removes the grade, and asks for a grade in the removed \<^verbatim>\<open>cat-1\<close>: three ids, counters
  3 and 2.
\<close>

theorem ids_never_reused_witness:
  "safe_state initial_state \<and>
   below_limit session initial_state \<and>
   ids_below initial_state \<and>
   minted session initial_state = [''cat-1'', ''cat-2'', ''grade-1''] \<and>
   distinct (minted session initial_state) \<and>
   categories (run session initial_state)
     = [\<lparr>c_id = ''cat-2'', c_name = ''Exams'', weight = Num (Fin 40), grades = []\<rparr>] \<and>
   nextCategoryId (run session initial_state) = 3 \<and>
   nextGradeId (run session initial_state) = 2 \<and>
   ids_below (run session initial_state)"
proof -
  have m: "minted session initial_state = [''cat-1'', ''cat-2'', ''grade-1'']"
    by (simp add: session_def initial_state_def createCategory_def removeCategory_def
        createGrade_def removeGrade_def number_to_string_digit digit_chars js_increment_small Let_def)
  have r: "run session initial_state =
     \<lparr>categories = [\<lparr>c_id = ''cat-2'', c_name = ''Exams'', weight = Num (Fin 40), grades = []\<rparr>],
      isWeighted = True, nextCategoryId = 3, nextGradeId = 2\<rparr>"
    by (simp add: session_def initial_state_def createCategory_def removeCategory_def
        createGrade_def removeGrade_def number_to_string_digit digit_chars js_increment_small Let_def)
  have b: "below_limit session initial_state"
    using initial_ok by (simp add: below_limit_def r)
  show ?thesis
    using b initial_ok
      ids_never_reused[of initial_state session "''cat-1''" "''grade-1''" None Undefined None Undefined]
    by (simp add: m r)
qed

text \<open>
  Two states that a load produces. With the category counter at \<open>2^53\<close> the
  increment stalls and two categories in a row are \<^verbatim>\<open>cat-9007199254740992\<close>. With a
  category \<^verbatim>\<open>cat-1\<close> stored and no counter stored, the counter is 1 and the next
  category is \<^verbatim>\<open>cat-1\<close> again.
\<close>

theorem counter_limit_counterexample:
  "state_of_loaded (snd (loadState stalled_storage initial_loaded)) = Some stalled_state \<and>
   safe_state stalled_state \<and>
   ids_below stalled_state \<and>
   minted [CreateCategory None Undefined, CreateCategory None Undefined] stalled_state
     = [''cat-9007199254740992'', ''cat-9007199254740992''] \<and>
   nextCategoryId (run [CreateCategory None Undefined, CreateCategory None Undefined] stalled_state)
     = 9007199254740992 \<and>
   state_of_loaded (snd (loadState stale_storage initial_loaded)) = Some stale_state \<and>
   ''cat-1'' \<in> set (ids stale_state) \<and>
   c_id (fst (createCategory None Undefined stale_state)) = ''cat-1''"
proof -
  have l: "state_of_loaded (snd (loadState stalled_storage initial_loaded)) = Some stalled_state"
    "state_of_loaded (snd (loadState stale_storage initial_loaded)) = Some stale_state"
    by (simp_all add: stalled_storage_def stale_storage_def stalled_state_def stale_state_def
        loadState_def getItem_def initial_loaded_def state_of_loaded_def)
  have r: "safe_state stalled_state \<and>
   ids_below stalled_state \<and>
   minted [CreateCategory None Undefined, CreateCategory None Undefined] stalled_state
     = [''cat-9007199254740992'', ''cat-9007199254740992''] \<and>
   nextCategoryId (run [CreateCategory None Undefined, CreateCategory None Undefined] stalled_state)
     = 9007199254740992 \<and>
   ''cat-1'' \<in> set (ids stale_state) \<and>
   c_id (fst (createCategory None Undefined stale_state)) = ''cat-1''"
    by (simp add: stalled_state_def stale_state_def safe_state_def safe_counter_def ids_below_def
        ids_def createCategory_def Let_def js_increment_stall number_to_string_limit
        number_to_string_digit digit_chars)
  show ?thesis using l r by simp
qed

text \<open>
  C6, as the code has it. \<^verbatim>\<open>loadState\<close> never throws. Without a readable document
  (storage unavailable, no item, an empty or unparsable text, the document \<^verbatim>\<open>null\<close>) it
  returns \<^verbatim>\<open>false\<close> and leaves the state as it is. With one it returns \<^verbatim>\<open>true\<close> and sets
  the four fields: a missing \<^verbatim>\<open>isWeighted\<close> becomes \<^verbatim>\<open>true\<close>; missing categories become
  the empty list and missing counters 1, and so does a falsy value in their place;
  any other value, of whatever shape, is kept as it is.
\<close>

theorem loadState_defaults:
  "(stored_document st = None \<longrightarrow> loadState st s = (False, s)) \<and>
   (stored_document st = Some d \<longrightarrow>
      loadState st s = (True, defaults_applied d) \<and>
      (prop_of d ''isWeighted'' = None \<longrightarrow> l_isWeighted (defaults_applied d) = JBool True) \<and>
      (prop_of d ''categories'' = None \<longrightarrow> l_categories (defaults_applied d) = JArr []) \<and>
      (prop_of d ''categories'' = Some j \<longrightarrow>
         l_categories (defaults_applied d) = (if json_truthy j then j else JArr [])) \<and>
      (prop_of d ''nextCategoryId'' = None \<longrightarrow> l_nextCategoryId (defaults_applied d) = JNum 1) \<and>
      (prop_of d ''nextGradeId'' = None \<longrightarrow> l_nextGradeId (defaults_applied d) = JNum 1))"
  using loadState_document loadState_no_document
  by (simp add: defaults_applied_def)

text \<open>
  An empty storage gives \<^verbatim>\<open>false\<close>; a document with only \<^verbatim>\<open>nextGradeId\<close> gives the other
  three defaults.
\<close>

theorem loadState_defaults_witness:
  "stored_document empty_storage = None \<and>
   loadState empty_storage initial_loaded = (False, initial_loaded) \<and>
   stored_document \<lparr>available = True, item = Some (Json_Text (JObj [(''nextGradeId'', JNum 4)]))\<rparr>
     = Some (JObj [(''nextGradeId'', JNum 4)]) \<and>
   loadState \<lparr>available = True, item = Some (Json_Text (JObj [(''nextGradeId'', JNum 4)]))\<rparr> initial_loaded
     = (True, \<lparr>l_categories = JArr [], l_isWeighted = JBool True,
               l_nextCategoryId = JNum 1, l_nextGradeId = JNum 4\<rparr>)"
proof -
  let ?st = "\<lparr>available = True, item = Some (Json_Text (JObj [(''nextGradeId'', JNum 4)]))\<rparr>"
  have a: "stored_document empty_storage = None"
    by (simp add: stored_document_def empty_storage_def)
  have b: "stored_document ?st = Some (JObj [(''nextGradeId'', JNum 4)])"
    by (simp add: stored_document_def)
  have c: "defaults_applied (JObj [(''nextGradeId'', JNum 4)])
     = \<lparr>l_categories = JArr [], l_isWeighted = JBool True,
               l_nextCategoryId = JNum 1, l_nextGradeId = JNum 4\<rparr>"
    by (simp add: defaults_applied_def)
  show ?thesis
    using a b c
      loadState_defaults[of empty_storage initial_loaded "JNull" "JNull"]
      loadState_defaults[of ?st initial_loaded "JObj [(''nextGradeId'', JNum 4)]" "JNull"]
    by simp
qed

text \<open>
  A document whose \<^verbatim>\<open>categories\<close> is a string: the load succeeds and the categories
  of the state are that string, not the empty list.
\<close>

theorem corrupt_categories_counterexample:
  "loadState corrupt_storage initial_loaded =
     (True, \<lparr>l_categories = JStr ''corrupt'', l_isWeighted = JBool False,
             l_nextCategoryId = JNum 1, l_nextGradeId = JNum 1\<rparr>) \<and>
   l_categories (snd (loadState corrupt_storage initial_loaded)) \<noteq> JArr []"
  by (simp add: loadState_def getItem_def corrupt_storage_def initial_loaded_def)


text \<open>
  C5, as the code has it. For every state whose scores and maxima are finite numbers
  or \<^verbatim>\<open>null\<close>, whose weights are finite numbers and whose two counters are not 0, a save
  to an available storage followed by a load returns \<^verbatim>\<open>true\<close> and gives back the
  fields of the saved document, which read as the same state: the categories in
  their order with their ids, names, weights and grades, the flag and both counters.
\<close>

theorem save_load_roundtrip:
  assumes "typed_state s" "nextCategoryId s \<noteq> 0" "nextGradeId s \<noteq> 0" "available st"
  shows "fst (loadState (saveState s st) l) \<and>
         snd (loadState (saveState s st) l) =
           \<lparr>l_categories = JArr (map json_of_category (categories s)),
            l_isWeighted = JBool (isWeighted s),
            l_nextCategoryId = JNum (of_int (nextCategoryId s)),
            l_nextGradeId = JNum (of_int (nextGradeId s))\<rparr> \<and>
         state_of_loaded (snd (loadState (saveState s st) l)) = Some s"
  using loadState_document[OF saved_document[OF assms(4)], of s l]
    defaults_of_saved[OF assms(2,3)] state_of_saved[OF assms(1)]
  by simp

text \<open>A state with one category and two grades, counters 2 and 3.\<close>

theorem save_load_roundtrip_witness:
  "typed_state sample_state \<and> nextCategoryId sample_state \<noteq> 0 \<and> nextGradeId sample_state \<noteq> 0 \<and>
   available empty_storage \<and>
   fst (loadState (saveState sample_state empty_storage) initial_loaded) \<and>
   state_of_loaded (snd (loadState (saveState sample_state empty_storage) initial_loaded))
     = Some sample_state"
proof -
  have a: "typed_state sample_state"
    by (simp add: typed_state_def sample_state_def typed_category_def typed_grade_def quiz_def exam_def)
  have b: "nextCategoryId sample_state \<noteq> 0" "nextGradeId sample_state \<noteq> 0"
    by (simp_all add: sample_state_def)
  have c: "available empty_storage" by (simp add: empty_storage_def)
  show ?thesis
    using a b c save_load_roundtrip[OF a b c, of initial_loaded] by blast
qed

text \<open>
  Two states that the operations produce, with unique ids. A score that is \<^verbatim>\<open>NaN\<close> is
  written as \<^verbatim>\<open>null\<close> and comes back as \<^verbatim>\<open>null\<close>. A counter that is 0, here after a load
  of a stored counter \<open>-1\<close> and one \<^verbatim>\<open>createCategory\<close>, comes back as 1: the loader's
  \<^verbatim>\<open>|| 1\<close> takes 0 for a missing value.
\<close>

theorem roundtrip_counterexample:
  "snd (createGrade ''cat-1'' None (Num NaN) Undefined
         (snd (createCategory None Undefined initial_state))) = nan_state \<and>
   distinct (ids nan_state) \<and>
   state_of_loaded (snd (loadState (saveState nan_state empty_storage) initial_loaded))
     = Some (nan_state\<lparr>categories :=
         [\<lparr>c_id = ''cat-1'', c_name = ''New Category'', weight = Num (Fin 25),
           grades = [\<lparr>g_id = ''grade-1'', g_name = [], score = Null, g_max = Num (Fin 100)\<rparr>]\<rparr>]\<rparr>) \<and>
   state_of_loaded (snd (loadState (saveState nan_state empty_storage) initial_loaded))
     \<noteq> Some nan_state \<and>
   state_of_loaded (snd (loadState negative_storage initial_loaded)) = Some negative_state \<and>
   snd (createCategory (Some ''Assignments'') (Num (Fin 100)) negative_state) = zero_counter_state \<and>
   distinct (ids zero_counter_state) \<and>
   state_of_loaded (snd (loadState (saveState zero_counter_state empty_storage) initial_loaded))
     = Some (zero_counter_state\<lparr>nextCategoryId := 1\<rparr>) \<and>
   state_of_loaded (snd (loadState (saveState zero_counter_state empty_storage) initial_loaded))
     \<noteq> Some zero_counter_state"
proof -
  have a: "snd (createGrade ''cat-1'' None (Num NaN) Undefined
         (snd (createCategory None Undefined initial_state))) = nan_state"
    by (simp add: createGrade_def createCategory_def initial_state_def nan_state_def Let_def
        number_to_string_digit digit_chars js_increment_small)
  have b: "distinct (ids nan_state)" "distinct (ids zero_counter_state)"
    by (simp_all add: ids_def nan_state_def zero_counter_state_def)
  have c: "state_of_loaded (snd (loadState (saveState nan_state empty_storage) initial_loaded))
     = Some (nan_state\<lparr>categories :=
         [\<lparr>c_id = ''cat-1'', c_name = ''New Category'', weight = Num (Fin 25),
           grades = [\<lparr>g_id = ''grade-1'', g_name = [], score = Null, g_max = Num (Fin 100)\<rparr>]\<rparr>]\<rparr>)"
    by (simp add: nan_state_def empty_storage_def saveState_def dataToSave_def
        json_of_category_def json_of_grade_def loadState_def getItem_def initial_loaded_def
        state_of_loaded_def)
  have d: "state_of_loaded (snd (loadState negative_storage initial_loaded)) = Some negative_state"
    by (simp add: negative_storage_def negative_state_def loadState_def getItem_def
        initial_loaded_def state_of_loaded_def floor_minus_one)
  have e: "snd (createCategory (Some ''Assignments'') (Num (Fin 100)) negative_state)
     = zero_counter_state"
    by (simp add: createCategory_def negative_state_def zero_counter_state_def Let_def
        number_to_string_minus_one js_increment_minus_one)
  have f: "state_of_loaded (snd (loadState (saveState zero_counter_state empty_storage) initial_loaded))
     = Some (zero_counter_state\<lparr>nextCategoryId := 1\<rparr>)"
    by (simp add: zero_counter_state_def empty_storage_def saveState_def dataToSave_def
        json_of_category_def loadState_def getItem_def initial_loaded_def state_of_loaded_def)
  have g: "Some (nan_state\<lparr>categories :=
         [\<lparr>c_id = ''cat-1'', c_name = ''New Category'', weight = Num (Fin 25),
           grades = [\<lparr>g_id = ''grade-1'', g_name = [], score = Null, g_max = Num (Fin 100)\<rparr>]\<rparr>]\<rparr>)
       \<noteq> Some nan_state"
    by (simp add: nan_state_def)
  have h: "Some (zero_counter_state\<lparr>nextCategoryId := 1\<rparr>) \<noteq> Some zero_counter_state"
    by (simp add: zero_counter_state_def)
  show ?thesis using a b c d e f g h by simp
qed

end
